theory Spec2Isabelle
  imports Main "HOL-Library.AList" "HOL-Library.Sublist" "HOL-Library.Option_ord"
    "HOL-Library.Product_Lexorder"
begin

section \<open>Python values\<close>

text \<open>
  The client exchanges JSON messages with TDLib. A message is a Python \<open>dict\<close>; its
  values are the values \<open>ujson\<close> produces, plus the tuple, which \<open>client.py\<close> builds
  once. Floats are left out: no function embedded here computes with one. A Python
  \<open>str\<close> is a \<open>string\<close>, one \<open>char\<close> per code point, so code points above 255 are
  outside the model. A \<open>dict\<close> is an association list in insertion order, read with
  \<open>map_of\<close>.
\<close>

datatype pyval =
    PNone
  | PBool bool
  | PInt int
  | PStr string
  | PList "pyval list"
  | PTuple "pyval list"
  | PDict "(string \<times> pyval) list"

type_synonym dict = "(string \<times> pyval) list"

text \<open>Every \<open>raise\<close> of the source and of the built-ins it calls is a value of \<open>error\<close>.
  \<open>Blocked\<close> is not an exception: it stands for a call that never returns, a
  \<open>result.wait()\<close> that the service never answers or a loop that does not end.\<close>

datatype error =
    KeyError
  | TypeError
  | ValueError
  | AttributeError
  | RecursionError
  | EOFError
  | AuthorizationError pyval
  | StopHandlers
  | Blocked

definition has_key :: "string \<Rightarrow> dict \<Rightarrow> bool" where
  "has_key k d = (map_of d k \<noteq> None)"

definition getitem :: "dict \<Rightarrow> string \<Rightarrow> error + pyval" where
  "getitem d k = (case map_of d k of None \<Rightarrow> Inl KeyError | Some v \<Rightarrow> Inr v)"

text \<open>Python's truth value of an object, as \<open>if x:\<close> and \<open>and\<close> test it.\<close>

fun truthy :: "pyval \<Rightarrow> bool" where
  "truthy PNone = False"
| "truthy (PBool b) = b"
| "truthy (PInt i) = (i \<noteq> 0)"
| "truthy (PStr s) = (s \<noteq> [])"
| "truthy (PList xs) = (xs \<noteq> [])"
| "truthy (PTuple xs) = (xs \<noteq> [])"
| "truthy (PDict d) = (d \<noteq> [])"

section \<open>The built-ins \<open>str.removeprefix\<close> and \<open>int\<close>\<close>

definition removeprefix :: "string \<Rightarrow> string \<Rightarrow> string" where
  "removeprefix p s = (if prefix p s then drop (length p) s else s)"

text \<open>
  \<open>int(s)\<close> in base 10, as CPython reads a \<open>str\<close>: white space around the literal is
  skipped, one sign is allowed, the digits may be grouped by single underscores (none
  at either end), and anything else raises \<open>ValueError\<close>, here \<open>None\<close>. The white space
  is the ASCII white space and, of the code points up to 255, U+0085 and U+00A0. The
  interpreter's configurable limit on the number of digits is not modelled.
\<close>

definition py_isspace :: "char \<Rightarrow> bool" where
  "py_isspace c = (of_char c \<in> {9, 10, 11, 12, 13, 32, 133, 160 :: nat})"

definition digit_val :: "char \<Rightarrow> nat option" where
  "digit_val c =
     (let k = (of_char c :: nat) in if 48 \<le> k \<and> k \<le> 57 then Some (k - 48) else None)"

text \<open>\<open>scan_digits prev n acc s\<close> walks the digits and underscores at the head of \<open>s\<close>;
  \<open>prev\<close> tells whether the character before was an underscore, \<open>n\<close> counts the digits
  and \<open>acc\<close> is their value. It returns the count, the value and the rest of \<open>s\<close>.\<close>

fun scan_digits :: "bool \<Rightarrow> nat \<Rightarrow> nat \<Rightarrow> string \<Rightarrow> (nat \<times> nat \<times> string) option" where
  "scan_digits prev n acc [] = (if prev then None else Some (n, acc, []))"
| "scan_digits prev n acc (c # cs) =
     (if c = CHR ''_'' then (if prev then None else scan_digits True n acc cs)
      else
        (case digit_val c of
           Some v \<Rightarrow> scan_digits False (Suc n) (acc * 10 + v) cs
         | None \<Rightarrow> (if prev then None else Some (n, acc, c # cs))))"

definition py_int :: "string \<Rightarrow> int option" where
  "py_int s =
     (let s1 = dropWhile py_isspace s;
          neg = (case s1 of c # _ \<Rightarrow> c = CHR ''-'' | [] \<Rightarrow> False);
          s2 = (case s1 of c # r \<Rightarrow> (if c = CHR ''+'' \<or> c = CHR ''-'' then r else s1)
                | [] \<Rightarrow> s1)
      in case s2 of
          [] \<Rightarrow> None
        | c # _ \<Rightarrow>
            if c = CHR ''_'' then None
            else
              (case scan_digits False 0 0 s2 of
                 None \<Rightarrow> None
               | Some (n, v, rest) \<Rightarrow>
                   if n = 0 then None
                   else if dropWhile py_isspace rest \<noteq> [] then None
                   else Some (if neg then - int v else int v)))"

section \<open>The retry-after time of a rate-limit error\<close>

definition retry_after_prefex :: string where
  "retry_after_prefex = ''Too Many Requests: retry after ''"

text \<open>
  \<open>Client.get_retry_after_time\<close>: \<open>int(error_message.removeprefix(prefix))\<close> inside
  \<open>try\<close>, with \<open>except Exception: return 0\<close>. A message that is not a \<open>str\<close> has no
  \<open>removeprefix\<close>; the \<open>AttributeError\<close> is caught like the \<open>ValueError\<close> of \<open>int\<close>.
\<close>

fun get_retry_after_time :: "pyval \<Rightarrow> int" where
  "get_retry_after_time (PStr error_message) =
     (case py_int (removeprefix retry_after_prefex error_message) of
        Some n \<Rightarrow> n
      | None \<Rightarrow> 0)"
| "get_retry_after_time _ = 0"

text \<open>\<open>Client.__init__\<close>: \<open>sleep_threshold if isinstance(sleep_threshold, int) else 0\<close>.
  The argument is \<open>None\<close> (the default) or an integer.\<close>

definition init_sleep_threshold :: "int option \<Rightarrow> int" where
  "init_sleep_threshold sleep_threshold =
     (case sleep_threshold of Some n \<Rightarrow> n | None \<Rightarrow> 0)"

section \<open>Handlers, call results and the client\<close>

text \<open>
  The class \<open>Handler\<close> as \<open>client.py\<close> and \<open>decorators.py\<close> use it: built by
  \<open>Handler(func, update_type, filter, position)\<close> and read through these four
  attributes. A callable and a \<open>Filter\<close> object are opaque; each is named by a number,
  and \<open>==\<close> on callables is equality of the numbers.
\<close>

record handler =
  func :: nat
  update_type :: string
  filter' :: "nat option"
  position :: "int option"

text \<open>
  Modelled from the spec: the class \<open>Result\<close> (module \<open>types\<close>) is not among the
  sources. It is the Call Future of the data model: a correlation key generated on the
  client side, the request payload retained for a retry, and the result payload set when
  the call is fulfilled or failed. \<open>client.py\<close> reads \<open>result.id\<close>, \<open>result.request\<close>,
  \<open>result.is_error\<close>, \<open>result.result\<close> and \<open>result[key]\<close>, and calls \<open>reset\<close>, \<open>wait\<close>
  and \<open>set_result\<close>. A failed call is one whose payload has the discriminator \<open>error\<close>,
  as in the payload \<open>client.py\<close> itself builds for a failed send.
\<close>

record result =
  result_id :: pyval
  request :: dict
  is_error :: bool
  result_value :: "dict option"

datatype task =
    HandleAuthorizationState dict
  | UpdateWorker dict

text \<open>
  What the client does to the outside is recorded, in order, in a trace. \<open>Sent k r\<close> is
  \<open>tdjson.send\<close> of the request \<open>r\<close> under the correlation key \<open>k\<close>; \<open>Slept n\<close> is
  \<open>time.sleep(n)\<close>; \<open>Logged\<close>, \<open>Printed\<close> and \<open>Asked\<close> carry the format string of the
  source and its arguments (\<open>Asked\<close> is \<open>input\<close> or \<open>getpass\<close>); \<open>Submitted\<close> is
  \<open>workers.submit\<close>; \<open>Resolved\<close> is \<open>set_result\<close> on a pending call; \<open>Ran k h\<close> is the
  call of the callback of handler \<open>h\<close> from the handler list under key \<open>k\<close>; \<open>Called\<close>
  names a method of the client whose body is not embedded here; \<open>Shutdown\<close> is
  \<open>workers.shutdown\<close>. Of the logging calls, those of level error and exception are
  recorded; the debug and info ones are not.
\<close>

datatype event =
    Sent pyval dict
  | Slept int
  | Logged string "pyval list"
  | Printed string "pyval list"
  | Asked string "pyval list"
  | Submitted task
  | Resolved result
  | Ran string handler
  | Called string
  | Shutdown

text \<open>
  The attributes of \<open>Client\<close> that the embedded methods read or write, and three fields
  for the surroundings: \<open>next_id\<close>, the counter the fresh correlation keys are drawn
  from; \<open>replies\<close>, the payloads with which the service will answer the calls, in the
  order in which the waits end; and \<open>trace\<close>.
\<close>

record client =
  sleep_threshold :: int
  use_message_database :: bool
  is_running :: "bool option"
  is_authenticated :: bool
  handlers :: "(string \<times> handler list) list"
  results :: "(pyval \<times> result) list"
  authorization_state :: pyval
  authorization :: pyval
  login :: bool
  is_closing :: bool
  next_id :: nat
  replies :: "dict list"
  trace :: "event list"

definition emit :: "event \<Rightarrow> client \<Rightarrow> client" where
  "emit e c = c\<lparr>trace := trace c @ [e]\<rparr>"

text \<open>\<open>Client.__init__\<close>, for the attributes above.\<close>

definition init_client :: "bool \<Rightarrow> int option \<Rightarrow> dict list \<Rightarrow> client" where
  "init_client use_message_database' sleep_threshold' service =
     \<lparr> sleep_threshold = init_sleep_threshold sleep_threshold',
       use_message_database = use_message_database',
       is_running = None,
       is_authenticated = False,
       handlers = [(''initializer'', []), (''finalizer'', [])],
       results = [],
       authorization_state = PNone,
       authorization = PNone,
       login = False,
       is_closing = False,
       next_id = 0,
       replies = service,
       trace = [] \<rparr>"

subsection \<open>Call results\<close>

text \<open>Modelled from the spec: \<open>Result(request)\<close> takes a fresh, process-unique
  correlation key; the call is pending.\<close>

definition new_result :: "dict \<Rightarrow> client \<Rightarrow> result \<times> client" where
  "new_result req c =
     (\<lparr> result_id = PInt (int (next_id c)), request = req, is_error = False,
        result_value = None \<rparr>,
      c\<lparr>next_id := Suc (next_id c)\<rparr>)"

text \<open>Modelled from the spec: \<open>Result.reset\<close> makes the call pending again under a
  brand-new correlation key; the request is kept.\<close>

definition reset :: "result \<Rightarrow> client \<Rightarrow> result \<times> client" where
  "reset r c =
     (r\<lparr>result_id := PInt (int (next_id c)), is_error := False, result_value := None\<rparr>,
      c\<lparr>next_id := Suc (next_id c)\<rparr>)"

text \<open>Modelled from the spec: \<open>Result.set_result\<close> stores the payload; the call is
  failed when the payload is an error.\<close>

definition set_result :: "result \<Rightarrow> dict \<Rightarrow> result" where
  "set_result r payload =
     r\<lparr>is_error := (map_of payload ''@type'' = Some (PStr ''error'')),
       result_value := Some payload\<rparr>"

text \<open>Modelled from the spec: \<open>result[key]\<close> reads the result payload.\<close>

definition result_getitem :: "result \<Rightarrow> string \<Rightarrow> error + pyval" where
  "result_getitem r k =
     (case result_value r of None \<Rightarrow> Inl TypeError | Some payload \<Rightarrow> getitem payload k)"

text \<open>
  Modelled from the spec: \<open>Result.wait\<close> blocks the caller until the receiver has
  resolved the call. The receiver takes the call out of the pending-call table and sets
  its payload, here the next reply of the service. With no reply left the wait never
  returns.
\<close>

definition wait :: "result \<Rightarrow> client \<Rightarrow> (error + result) \<times> client" where
  "wait r c =
     (case replies c of
        [] \<Rightarrow> (Inl Blocked, c)
      | payload # rest \<Rightarrow>
          (Inr (set_result r payload),
           c\<lparr>results := AList.delete (result_id r) (results c), replies := rest\<rparr>))"

text \<open>The three statements that \<open>invoke\<close> repeats at each of its sends:
  \<open>self._results[result.id] = result\<close>, \<open>self.__send(result.request)\<close>,
  \<open>result.wait()\<close>.\<close>

definition send_and_wait :: "result \<Rightarrow> client \<Rightarrow> (error + result) \<times> client" where
  "send_and_wait r c =
     wait r (emit (Sent (result_id r) (request r))
       (c\<lparr>results := AList.update (result_id r) r (results c)\<rparr>))"

text \<open>\<open>message_id > 0\<close> on a value of a request: an integer or a boolean compares with
  0, anything else raises \<open>TypeError\<close>.\<close>

fun greater_zero :: "pyval \<Rightarrow> error + bool" where
  "greater_zero (PInt i) = Inr (0 < i)"
| "greater_zero (PBool b) = Inr b"
| "greater_zero _ = Inl TypeError"

subsection \<open>\<open>Client.invoke\<close>\<close>

text \<open>
  \<open>getChat\<close> and \<open>getMessage\<close> of \<open>tdlibfunctions.py\<close> build their request and call
  \<open>invoke\<close>, so \<open>invoke\<close> calls itself through them. The first argument bounds the
  depth of these calls, as the interpreter's recursion limit does: at depth 0 the call
  raises \<open>RecursionError\<close>.
\<close>

definition getChat_request :: "pyval \<Rightarrow> dict" where
  "getChat_request chat_id = [(''@type'', PStr ''getChat''), (''chat_id'', chat_id)]"

definition getMessage_request :: "pyval \<Rightarrow> pyval \<Rightarrow> dict" where
  "getMessage_request chat_id message_id =
     [(''@type'', PStr ''getMessage''), (''chat_id'', chat_id), (''message_id'', message_id)]"

text \<open>The message id that the stale-chat branch reads from the request:
  \<open>message_id = 0\<close>, then \<open>reply_to_message_id\<close> if the request has this key,
  \<open>elif\<close> its \<open>message_id\<close> if it has that one.\<close>

definition request_message_id :: "dict \<Rightarrow> pyval" where
  "request_message_id req =
     (case map_of req ''reply_to_message_id'' of
        Some v \<Rightarrow> v
      | None \<Rightarrow> (case map_of req ''message_id'' of Some v \<Rightarrow> v | None \<Rightarrow> PInt 0))"

text \<open>The statements of \<open>invoke\<close> that send a request again after \<open>result.reset()\<close>.
  The branch for a chat that was not found runs them one after the other.\<close>

definition resend :: "result \<Rightarrow> client \<Rightarrow> (error + result) \<times> client" where
  "resend result0 c0 = (case reset result0 c0 of (result, c) \<Rightarrow> send_and_wait result c)"

text \<open>
  The branch \<open>if retry_after <= self.sleep_threshold\<close>: reset, the log line, which reads
  \<open>result.request["@type"]\<close>, \<open>time.sleep(retry_after)\<close>, which raises \<open>ValueError\<close>
  on a negative number, and the second send. The upper limit of \<open>time.sleep\<close>, some
  hundreds of years, is not modelled.
\<close>

definition sleep_and_resend :: "int \<Rightarrow> result \<Rightarrow> client \<Rightarrow> (error + result) \<times> client" where
  "sleep_and_resend retry_after result0 c0 =
     (case reset result0 c0 of (result, c) \<Rightarrow>
        (case getitem (request result) ''@type'' of
           Inl e \<Rightarrow> (Inl e, c)
         | Inr ty \<Rightarrow>
             if retry_after < 0 then
               (Inl ValueError,
                emit (Logged ''Sleeping for {}s (Caused by {})'' [PInt retry_after, ty]) c)
             else
               send_and_wait result
                 (emit (Slept retry_after)
                    (emit (Logged ''Sleeping for {}s (Caused by {})'' [PInt retry_after, ty]) c))))"

text \<open>The branch \<open>if result["code"] == 429\<close>.\<close>

definition retry_rate_limited :: "result \<Rightarrow> client \<Rightarrow> (error + result) \<times> client" where
  "retry_rate_limited result c =
     (case result_getitem result ''message'' of
        Inl e \<Rightarrow> (Inl e, c)
      | Inr message \<Rightarrow>
          if get_retry_after_time message \<le> sleep_threshold c
          then sleep_and_resend (get_retry_after_time message) result c
          else (Inr result, c))"

text \<open>
  The test of the \<open>elif\<close>: \<open>not self.use_message_database and (result["code"] == 400
  and result["message"] == "Chat not found" and "chat_id" in result.request)\<close>, read
  from left to right; \<open>code\<close> is \<open>result["code"]\<close>.
\<close>

definition is_chat_not_found :: "result \<Rightarrow> pyval \<Rightarrow> client \<Rightarrow> error + bool" where
  "is_chat_not_found result code c =
     (if use_message_database c then Inr False
      else if code \<noteq> PInt 400 then Inr False
      else
        (case result_getitem result ''message'' of
           Inl e \<Rightarrow> Inl e
         | Inr message \<Rightarrow>
             Inr (message = PStr ''Chat not found'' \<and> has_key ''chat_id'' (request result))))"

fun invoke :: "nat \<Rightarrow> dict \<Rightarrow> client \<Rightarrow> (error + result) \<times> client" where
  "invoke 0 req c = (Inl RecursionError, c)"
| "invoke (Suc depth) req c0 =
     (case new_result req c0 of (result0, c1) \<Rightarrow>
      (case send_and_wait result0 c1 of
         (Inl e, c) \<Rightarrow> (Inl e, c)
       | (Inr result, c) \<Rightarrow>
           if \<not> is_error result then (Inr result, c)
           else
             (case result_getitem result ''code'' of
                Inl e \<Rightarrow> (Inl e, c)
              | Inr code \<Rightarrow>
                  if code = PInt 429 then retry_rate_limited result c
                  else
                    (case is_chat_not_found result code c of
                       Inl e \<Rightarrow> (Inl e, c)
                     | Inr False \<Rightarrow> (Inr result, c)
                     | Inr True \<Rightarrow>
                         (case getitem (request result) ''chat_id'' of
                            Inl e \<Rightarrow> (Inl e, c)
                          | Inr chat_id \<Rightarrow>
                              (case invoke depth (getChat_request chat_id) c of
                                 (Inl e, c) \<Rightarrow> (Inl e, c)
                               | (Inr load_chat, c) \<Rightarrow>
                                   if is_error load_chat then
                                     (Inr result,
                                      emit (Logged (''Couldn'' @ [CHR 0x27] @ ''t load chat {}'')
                                              [chat_id]) c)
                                   else
                                     (case greater_zero (request_message_id (request result)) of
                                        Inl e \<Rightarrow> (Inl e, c)
                                      | Inr False \<Rightarrow> resend result c
                                      | Inr True \<Rightarrow>
                                          (case invoke depth
                                                  (getMessage_request chat_id
                                                     (request_message_id (request result))) c of
                                             (Inl e, c) \<Rightarrow> (Inl e, c)
                                           | (Inr _, c) \<Rightarrow> resend result c))))))))"

section \<open>The handler registry\<close>

text \<open>\<open>list.insert(i, x)\<close>: a negative index counts from the end, and an index out of
  range is clamped to the nearest end.\<close>

definition list_insert :: "int \<Rightarrow> 'a \<Rightarrow> 'a list \<Rightarrow> 'a list" where
  "list_insert i x xs =
     (let n = int (length xs);
          j = (if i < 0 then max 0 (n + i) else min i n)
      in take (nat j) xs @ [x] @ drop (nat j) xs)"

text \<open>
  \<open>list.sort(key=lambda x: (x.position is None, x.position))\<close>. Python's sort is
  stable, as \<open>sort_key\<close> is. The keys are pairs compared lexicographically, \<open>False\<close>
  before \<open>True\<close>; two positions are compared only when both are integers or both are
  \<open>None\<close>.
\<close>

definition sort_position :: "handler \<Rightarrow> bool \<times> int option" where
  "sort_position x = (position x = None, position x)"

definition sort_handlers :: "handler list \<Rightarrow> handler list" where
  "sort_handlers hs = sort_key sort_position hs"

text \<open>\<open>Client.add_handler\<close>. The arguments have the types the method checks for, so
  its \<open>TypeError\<close> branches are not reachable.\<close>

definition add_handler ::
  "string \<Rightarrow> nat \<Rightarrow> nat option \<Rightarrow> int option \<Rightarrow> client \<Rightarrow> client" where
  "add_handler update_type' func' filters position' c =
     (let h = \<lparr>func = func', update_type = update_type', filter' = filters,
                position = position'\<rparr>;
          hs = (case map_of (handlers c) update_type' of None \<Rightarrow> [] | Some hs \<Rightarrow> hs);
          hs = (case position' of Some p \<Rightarrow> list_insert p h hs | None \<Rightarrow> hs @ [h])
      in c\<lparr>handlers := AList.update update_type' (sort_handlers hs) (handlers c)\<rparr>)"

text \<open>\<open>Client.remove_handler\<close>: the first handler whose callback is \<open>func\<close>, in the
  first list that has one, is removed, and that list is sorted again.\<close>

fun remove_first :: "nat \<Rightarrow> handler list \<Rightarrow> handler list option" where
  "remove_first f [] = None"
| "remove_first f (h # hs) =
     (if func h = f then Some hs else map_option ((#) h) (remove_first f hs))"

fun remove_from ::
  "nat \<Rightarrow> (string \<times> handler list) list \<Rightarrow> (string \<times> handler list) list option" where
  "remove_from f [] = None"
| "remove_from f ((t, hs) # rest) =
     (case remove_first f hs of
        Some hs' \<Rightarrow> Some ((t, sort_handlers hs') # rest)
      | None \<Rightarrow> map_option ((#) (t, hs)) (remove_from f rest))"

definition remove_handler :: "nat \<Rightarrow> client \<Rightarrow> bool \<times> client" where
  "remove_handler f c =
     (case remove_from f (handlers c) of
        Some hs \<Rightarrow> (True, c\<lparr>handlers := hs\<rparr>)
      | None \<Rightarrow> (False, c))"

text \<open>
  The order that the handler lists are to be in: explicit positions ascending, and
  a handler without position after every handler with one.
\<close>

definition position_le :: "handler \<Rightarrow> handler \<Rightarrow> bool" where
  "position_le x y =
     (case position x of
        None \<Rightarrow> position y = None
      | Some a \<Rightarrow> (case position y of None \<Rightarrow> True | Some b \<Rightarrow> a \<le> b))"

text \<open>A sequence of calls of the two methods.\<close>

datatype registry_call =
    AddHandler string nat "nat option" "int option"
  | RemoveHandler nat

fun registry_step :: "registry_call \<Rightarrow> client \<Rightarrow> client" where
  "registry_step (AddHandler t f flt p) c = add_handler t f flt p c"
| "registry_step (RemoveHandler f) c = snd (remove_handler f c)"

definition registry_calls :: "registry_call list \<Rightarrow> client \<Rightarrow> client" where
  "registry_calls calls c = fold registry_step calls c"

text \<open>The handlers that a sequence of calls creates, in the order of registration.\<close>

fun registered :: "registry_call list \<Rightarrow> handler list" where
  "registered [] = []"
| "registered (AddHandler t f flt p # calls) =
     \<lparr>func = f, update_type = t, filter' = flt, position = p\<rparr> # registered calls"
| "registered (RemoveHandler f # calls) = registered calls"

section \<open>The handler chain\<close>

text \<open>
  A callback is called as \<open>handler.func(self, update)\<close> and a filter function as
  \<open>filter_func(self, update)\<close>: each gets the client and the update, and may change
  both. What a call does is given from outside: it returns, raises \<open>StopHandlers\<close>, or
  raises another exception, and it leaves an update and a client behind. A call that
  never returns is not modelled.
\<close>

datatype 'a outcome = Returns 'a | RaisesStopHandlers | RaisesException

type_synonym callbacks = "nat \<Rightarrow> dict \<Rightarrow> client \<Rightarrow> unit outcome \<times> dict \<times> client"
type_synonym predicates = "nat \<Rightarrow> dict \<Rightarrow> client \<Rightarrow> bool outcome \<times> dict \<times> client"

text \<open>
  The body of the \<open>for\<close> loop that \<open>__run_initializers\<close>, \<open>__run_handlers\<close> and
  \<open>__run_finalizers\<close> share, for one handler: the \<open>try\<close> statement with the filter
  test and the call of the callback, \<open>except StopHandlers\<close> raising the signal again,
  and \<open>except Exception\<close> logging. \<open>key\<close> is the key of the list walked and \<open>msg\<close> the
  text logged.
\<close>

definition call_handler ::
  "string \<Rightarrow> string \<Rightarrow> callbacks \<Rightarrow> predicates \<Rightarrow> handler \<Rightarrow> dict \<Rightarrow> client
     \<Rightarrow> (error + unit) \<times> dict \<times> client" where
  "call_handler key msg cf cp h update c =
     (case (case filter' h of None \<Rightarrow> (Returns True, update, c) | Some p \<Rightarrow> cp p update c) of
        (RaisesStopHandlers, u, c) \<Rightarrow> (Inl StopHandlers, u, c)
      | (RaisesException, u, c) \<Rightarrow> (Inr (), u, emit (Logged msg [PInt (int (func h))]) c)
      | (Returns False, u, c) \<Rightarrow> (Inr (), u, c)
      | (Returns True, u, c) \<Rightarrow>
          (case cf (func h) u (emit (Ran key h) c) of
             (RaisesStopHandlers, u, c) \<Rightarrow> (Inl StopHandlers, u, c)
           | (RaisesException, u, c) \<Rightarrow> (Inr (), u, emit (Logged msg [PInt (int (func h))]) c)
           | (Returns _, u, c) \<Rightarrow> (Inr (), u, c)))"

text \<open>
  The \<open>for\<close> loop itself, \<open>for handler in self._handlers[key]\<close>. The loop walks the
  list of the registry, not a copy: \<open>add_handler\<close> and \<open>remove_handler\<close> change that
  list in place, so at each turn the handler at the next index is read from the list as
  it is then, and the loop ends when the index is no longer inside the list. \<open>i\<close> is the
  index. A callback that registers a handler at every call keeps the loop of the source
  running for ever; the first argument bounds the number of turns, and a loop that has
  not ended within the bound is \<open>Blocked\<close>.
\<close>

fun run_list ::
  "nat \<Rightarrow> string \<Rightarrow> string \<Rightarrow> callbacks \<Rightarrow> predicates \<Rightarrow> nat \<Rightarrow> dict \<Rightarrow> client
     \<Rightarrow> (error + unit) \<times> dict \<times> client" where
  "run_list 0 key msg cf cp i update c = (Inl Blocked, update, c)"
| "run_list (Suc turns) key msg cf cp i update c =
     (case map_of (handlers c) key of
        None \<Rightarrow> (Inl KeyError, update, c)
      | Some hs \<Rightarrow>
          if length hs \<le> i then (Inr (), update, c)
          else
            (case call_handler key msg cf cp (hs ! i) update c of
               (Inl e, u, c) \<Rightarrow> (Inl e, u, c)
             | (Inr _, u, c) \<Rightarrow> run_list turns key msg cf cp (Suc i) u c))"



fun is_ran :: "event \<Rightarrow> bool" where
  "is_ran (Ran _ _) = True"
| "is_ran _ = False"

definition runs :: "event list \<Rightarrow> event list" where
  "runs tr = filter is_ran tr"


text \<open>\<open>self._handlers[key]\<close> for a key that is a Python value: a list or a dict is
  not hashable, and a key that is not a string is never in the registry.\<close>

fun handlers_at :: "pyval \<Rightarrow> client \<Rightarrow> error + handler list" where
  "handlers_at (PStr k) c =
     (case map_of (handlers c) k of None \<Rightarrow> Inl KeyError | Some hs \<Rightarrow> Inr hs)"
| "handlers_at (PList _) c = Inl TypeError"
| "handlers_at (PDict _) c = Inl TypeError"
| "handlers_at _ c = Inl KeyError"

fun in_handlers :: "pyval \<Rightarrow> client \<Rightarrow> error + bool" where
  "in_handlers (PStr k) c = Inr (map_of (handlers c) k \<noteq> None)"
| "in_handlers (PList _) c = Inl TypeError"
| "in_handlers (PDict _) c = Inl TypeError"
| "in_handlers _ c = Inr False"

definition run_initializers ::
  "nat \<Rightarrow> callbacks \<Rightarrow> predicates \<Rightarrow> dict \<Rightarrow> client \<Rightarrow> (error + unit) \<times> dict \<times> client" where
  "run_initializers turns cf cp update c =
     (case handlers_at (PStr ''initializer'') c of
        Inl e \<Rightarrow> (Inl e, update, c)
      | Inr _ \<Rightarrow> run_list turns ''initializer'' ''Initializer {} failed'' cf cp 0 update c)"

definition run_handlers ::
  "nat \<Rightarrow> callbacks \<Rightarrow> predicates \<Rightarrow> dict \<Rightarrow> client \<Rightarrow> (error + unit) \<times> dict \<times> client" where
  "run_handlers turns cf cp update c =
     (case getitem update ''@type'' of
        Inl e \<Rightarrow> (Inl e, update, c)
      | Inr update_type' \<Rightarrow>
          (case handlers_at update_type' c of
             Inl e \<Rightarrow> (Inl e, update, c)
           | Inr _ \<Rightarrow>
               run_list turns (case update_type' of PStr k \<Rightarrow> k | _ \<Rightarrow> [])
                 ''Exception in {}'' cf cp 0 update c))"

definition run_finalizers ::
  "nat \<Rightarrow> callbacks \<Rightarrow> predicates \<Rightarrow> dict \<Rightarrow> client \<Rightarrow> (error + unit) \<times> dict \<times> client" where
  "run_finalizers turns cf cp update c =
     (case handlers_at (PStr ''finalizer'') c of
        Inl e \<Rightarrow> (Inl e, update, c)
      | Inr _ \<Rightarrow> run_list turns ''finalizer'' ''Finalizer {} failed'' cf cp 0 update c)"

fun subscript :: "pyval \<Rightarrow> string \<Rightarrow> error + pyval" where
  "subscript (PDict d) k = getitem d k"
| "subscript _ k = Inl TypeError"

text \<open>
  The test of \<open>_update_worker\<close> for the local echo of a message being sent:
  \<open>update["@type"] == "updateNewMessage" and update["message"]["is_outgoing"] and
  "sending_state" in update["message"]\<close>. The \<open>in\<close> is reached only when
  \<open>update["message"]\<close> is a dict.
\<close>

definition is_local_echo :: "dict \<Rightarrow> error + bool" where
  "is_local_echo update =
     (case getitem update ''@type'' of
        Inl e \<Rightarrow> Inl e
      | Inr ty \<Rightarrow>
          if ty \<noteq> PStr ''updateNewMessage'' then Inr False
          else
            (case getitem update ''message'' of
               Inl e \<Rightarrow> Inl e
             | Inr message \<Rightarrow>
                 (case subscript message ''is_outgoing'' of
                    Inl e \<Rightarrow> Inl e
                  | Inr is_outgoing \<Rightarrow>
                      if \<not> truthy is_outgoing then Inr False
                      else
                        (case message of
                           PDict m \<Rightarrow> Inr (has_key ''sending_state'' m)
                         | _ \<Rightarrow> Inl TypeError))))"

text \<open>
  The \<open>try\<close> statement of \<open>_update_worker\<close>: initializers, then the handlers of the
  update type; \<open>except StopHandlers: pass\<close>; \<open>finally\<close> the finalizers. After the
  finalizers an exception other than \<open>StopHandlers\<close> is raised again. A phase that does
  not end is followed by nothing.
\<close>

definition run_chain ::
  "nat \<Rightarrow> callbacks \<Rightarrow> predicates \<Rightarrow> dict \<Rightarrow> client \<Rightarrow> (error + unit) \<times> dict \<times> client" where
  "run_chain turns cf cp update c =
     (case (case run_initializers turns cf cp update c of
              (Inl e, u, c) \<Rightarrow> (Inl e, u, c)
            | (Inr _, u, c) \<Rightarrow> run_handlers turns cf cp u c) of
        (Inl e, u, c) \<Rightarrow>
          if e = Blocked then (Inl Blocked, u, c)
          else
            (case run_finalizers turns cf cp u c of
               (Inl e', u, c) \<Rightarrow> (Inl e', u, c)
             | (Inr _, u, c) \<Rightarrow> (if e = StopHandlers then (Inr (), u, c) else (Inl e, u, c)))
      | (Inr _, u, c) \<Rightarrow> run_finalizers turns cf cp u c)"

text \<open>
  \<open>Client._update_worker\<close>. The update class wraps the dict of the update and reads like
  it, so \<open>self.update_class(self, update)\<close> is the update itself. Every exception ends
  in the outer \<open>except Exception\<close>, which logs it. The result is the client when the
  method returns, and \<open>None\<close> when a loop of the chain does not end.
\<close>

definition update_worker ::
  "nat \<Rightarrow> callbacks \<Rightarrow> predicates \<Rightarrow> dict \<Rightarrow> client \<Rightarrow> client option" where
  "update_worker turns cf cp update c =
     (if is_running c \<noteq> Some True then Some c
      else
        (case (if \<not> has_key ''@type'' update then (Inr (), c)
               else
                 (case getitem update ''@type'' of
                    Inl e \<Rightarrow> (Inl e, c)
                  | Inr ty \<Rightarrow>
                      (case in_handlers ty c of
                         Inl e \<Rightarrow> (Inl e, c)
                       | Inr False \<Rightarrow> (Inr (), c)
                       | Inr True \<Rightarrow>
                           (case is_local_echo update of
                              Inl e \<Rightarrow> (Inl e, c)
                            | Inr True \<Rightarrow> (Inr (), c)
                            | Inr False \<Rightarrow>
                                (case run_chain turns cf cp update c of
                                   (r, _, c) \<Rightarrow> (r, c)))))) of
           (Inl e, c) \<Rightarrow>
             if e = Blocked then None
             else Some (emit (Logged ''Exception in _update_worker'' []) c)
         | (Inr _, c) \<Rightarrow> Some c))"

section \<open>The dispatcher and the receiver loop\<close>

text \<open>\<open>key in self._results\<close> for a key that is a Python value.\<close>

fun in_results :: "pyval \<Rightarrow> client \<Rightarrow> error + bool" where
  "in_results (PList _) c = Inl TypeError"
| "in_results (PDict _) c = Inl TypeError"
| "in_results k c = Inr (map_of (results c) k \<noteq> None)"

text \<open>
  \<open>Client._process_update\<close>. The five handlers that it calls in line for the well-known
  update types are recorded by name; their bodies are not embedded.
\<close>

definition process_update :: "dict \<Rightarrow> client \<Rightarrow> (error + unit) \<times> client" where
  "process_update update0 c =
     (let update = (if has_key ''@client_id'' update0
                    then AList.delete ''@client_id'' update0 else update0)
      in
        if \<not> has_key ''@type'' update then
          (Inr (), emit (Logged ''Unexpected update received: {}'' [PDict update]) c)
        else if has_key ''@extra'' update then
          (case getitem update ''@extra'' of
             Inl e \<Rightarrow> (Inl e, c)
           | Inr extra \<Rightarrow>
               (case subscript extra ''id'' of
                  Inl e \<Rightarrow> (Inl e, c)
                | Inr k \<Rightarrow>
                    (case in_results k c of
                       Inl e \<Rightarrow> (Inl e, c)
                     | Inr True \<Rightarrow>
                         (case map_of (results c) k of
                            None \<Rightarrow> (Inl KeyError, c)
                          | Some r \<Rightarrow>
                              (Inr (),
                               emit (Resolved (set_result r update))
                                 (c\<lparr>results := AList.delete k (results c)\<rparr>)))
                     | Inr False \<Rightarrow>
                         if map_of update ''@type'' = Some (PStr ''error'')
                            \<and> (case extra of PDict x \<Rightarrow> has_key ''option'' x | _ \<Rightarrow> False)
                         then
                           (case subscript extra ''option'' of
                              Inl e \<Rightarrow> (Inl e, c)
                            | Inr option \<Rightarrow>
                                (case getitem update ''message'' of
                                   Inl e \<Rightarrow> (Inl e, c)
                                 | Inr message \<Rightarrow>
                                     (Inr (), emit (Logged ''{}: {}'' [option, message]) c)))
                         else (Inr (), c))))
        else
          (let ty = map_of update ''@type'';
               c = (if ty = Some (PStr ''updateAuthorizationState'')
                    then emit (Submitted (HandleAuthorizationState update)) c
                    else if ty = Some (PStr ''updateMessageSendSucceeded'')
                    then emit (Called ''__handle_update_message_succeeded'') c
                    else if ty = Some (PStr ''updateMessageSendFailed'')
                    then emit (Called ''__handle_update_message_failed'') c
                    else if ty = Some (PStr ''updateConnectionState'')
                    then emit (Called ''__handle_connection_state'') c
                    else if ty = Some (PStr ''updateOption'')
                    then emit (Called ''__handle_update_option'') c
                    else if ty = Some (PStr ''updateUser'')
                    then emit (Called ''__handle_update_user'') c
                    else c)
           in (Inr (), emit (Submitted (UpdateWorker update)) c)))"

text \<open>
  \<open>Client.__listen_loop\<close>, over the list of what \<open>receive\<close> returns (\<open>None\<close> on a
  timeout). \<open>receive_loop\<close> is the \<open>while self.is_running\<close> loop together with the
  \<open>except\<close> and \<open>finally\<close> clauses that end it; when the list is used up the loop is
  still polling.
\<close>

fun receive_loop :: "dict option list \<Rightarrow> client \<Rightarrow> client" where
  "receive_loop [] c = c"
| "receive_loop (u # us) c =
     (if is_running c \<noteq> Some True then c\<lparr>is_running := Some False\<rparr>
      else
        (case u of
           None \<Rightarrow> receive_loop us c
         | Some update \<Rightarrow>
             (case process_update update c of
                (Inl e, c) \<Rightarrow>
                  (emit (Logged ''Exception in __listen_loop'' []) c)\<lparr>is_running := Some False\<rparr>
              | (Inr _, c) \<Rightarrow> receive_loop us c)))"

definition listen_loop :: "dict option list \<Rightarrow> client \<Rightarrow> client" where
  "listen_loop received c = receive_loop received (c\<lparr>is_running := Some True\<rparr>)"

section \<open>The decorators\<close>

text \<open>
  A decorated function: its identity and its attribute \<open>_handler\<close>, if set. The
  receiver \<open>self\<close> of a decorator is a \<open>Client\<close>, a \<open>Filter\<close>, or anything else
  (\<open>None\<close> when the decorator is called on the class).
\<close>

record callable =
  ident :: nat
  handler_attr :: "handler option"

datatype receiver = IsClient | IsFilter nat | IsOther

definition initializer ::
  "receiver \<Rightarrow> nat option \<Rightarrow> int option \<Rightarrow> callable \<Rightarrow> client \<Rightarrow> callable \<times> client" where
  "initializer self filters position' f c =
     (if handler_attr f \<noteq> None then (f, c)
      else
        (case self of
           IsClient \<Rightarrow> (f, add_handler ''initializer'' (ident f) filters position' c)
         | IsFilter flt \<Rightarrow>
             (f\<lparr>handler_attr := Some \<lparr>func = ident f, update_type = ''initializer'',
                                      filter' = Some flt, position = position'\<rparr>\<rparr>, c)
         | IsOther \<Rightarrow>
             (f\<lparr>handler_attr := Some \<lparr>func = ident f, update_type = ''initializer'',
                                      filter' = filters, position = position'\<rparr>\<rparr>, c)))"

definition finalizer ::
  "receiver \<Rightarrow> nat option \<Rightarrow> int option \<Rightarrow> callable \<Rightarrow> client \<Rightarrow> callable \<times> client" where
  "finalizer self filters position' f c =
     (if handler_attr f \<noteq> None then (f, c)
      else
        (case self of
           IsClient \<Rightarrow> (f, add_handler ''finalizer'' (ident f) filters position' c)
         | IsFilter flt \<Rightarrow>
             (f\<lparr>handler_attr := Some \<lparr>func = ident f, update_type = ''initializer'',
                                      filter' = Some flt, position = position'\<rparr>\<rparr>, c)
         | IsOther \<Rightarrow>
             (f\<lparr>handler_attr := Some \<lparr>func = ident f, update_type = ''finalizer'',
                                      filter' = filters, position = position'\<rparr>\<rparr>, c)))"

text \<open>The body of the loop of \<open>Client._load_plugins\<close> over the objects of a plugin
  module: an object with a \<open>_handler\<close> is registered with the fields of that handler.\<close>

definition load_plugin_object :: "callable \<Rightarrow> client \<Rightarrow> client" where
  "load_plugin_object obj c =
     (case handler_attr obj of
        None \<Rightarrow> c
      | Some h \<Rightarrow> add_handler (update_type h) (func h) (filter' h) (position h) c)"

section \<open>The authorization state machine\<close>

text \<open>
  The interactive steps read lines with \<open>input\<close> and \<open>getpass\<close>. The lines that the
  operator will type are a list, handed on from step to step; reading from the empty
  list raises \<open>EOFError\<close>, as reading at the end of the input does. The prompt is
  recorded before the line is read.
\<close>

definition setAuthenticationEmailAddress_request :: "pyval \<Rightarrow> dict" where
  "setAuthenticationEmailAddress_request email_address =
     [(''@type'', PStr ''setAuthenticationEmailAddress''), (''email_address'', email_address)]"

definition checkAuthenticationPassword_request :: "pyval \<Rightarrow> dict" where
  "checkAuthenticationPassword_request password =
     [(''@type'', PStr ''checkAuthenticationPassword''), (''password'', password)]"

definition requestAuthenticationPasswordRecovery_request :: dict where
  "requestAuthenticationPasswordRecovery_request =
     [(''@type'', PStr ''requestAuthenticationPasswordRecovery'')]"

definition checkAuthenticationPasswordRecoveryCode_request :: "pyval \<Rightarrow> dict" where
  "checkAuthenticationPasswordRecoveryCode_request recovery_code =
     [(''@type'', PStr ''checkAuthenticationPasswordRecoveryCode''),
      (''recovery_code'', recovery_code)]"

definition recoverAuthenticationPassword_request :: "pyval \<Rightarrow> dict" where
  "recoverAuthenticationPassword_request recovery_code =
     [(''@type'', PStr ''recoverAuthenticationPassword''), (''recovery_code'', recovery_code),
      (''new_password'', PNone), (''new_hint'', PNone)]"

text \<open>\<open>Client.__stop_client\<close>.\<close>

definition stop_client :: "client \<Rightarrow> client" where
  "stop_client c = emit Shutdown (c\<lparr>is_authenticated := False, is_running := Some False\<rparr>)"

text \<open>The \<open>while self.is_running\<close> loop of
  \<open>__handle_authorization_state_wait_email_address\<close>.\<close>

fun email_address_loop ::
  "nat \<Rightarrow> string list \<Rightarrow> client \<Rightarrow> (error + unit) \<times> string list \<times> client" where
  "email_address_loop depth [] c =
     (if is_running c \<noteq> Some True then (Inr (), [], c)
      else (Inl EOFError, [], emit (Asked ''Enter your email address: '' []) c))"
| "email_address_loop depth (email_address # ins) c =
     (if is_running c \<noteq> Some True then (Inr (), email_address # ins, c)
      else
        (case invoke depth (setAuthenticationEmailAddress_request (PStr email_address))
                (emit (Asked ''Enter your email address: '' []) c) of
           (Inl e, c) \<Rightarrow> (Inl e, ins, c)
         | (Inr res, c) \<Rightarrow>
             if is_error res then
               (case result_getitem res ''message'' of
                  Inl e \<Rightarrow> (Inl e, ins, c)
                | Inr message \<Rightarrow> email_address_loop depth ins (emit (Printed ''{}'' [message]) c))
             else (Inr (), ins, c)))"

text \<open>\<open>Client.__handle_authorization_state_wait_email_address\<close>. The method returns at
  once when the authorization state is \<open>authorizationStateWaitEmailAddress\<close>.\<close>

definition handle_authorization_state_wait_email_address ::
  "nat \<Rightarrow> string list \<Rightarrow> client \<Rightarrow> (error + unit) \<times> string list \<times> client" where
  "handle_authorization_state_wait_email_address depth ins c =
     (if authorization_state c = PStr ''authorizationStateWaitEmailAddress'' then (Inr (), ins, c)
      else email_address_loop depth ins c)"

definition ascii_lower :: "char \<Rightarrow> char" where
  "ascii_lower ch =
     (let k = (of_char ch :: nat) in if 65 \<le> k \<and> k \<le> 90 then char_of (k + 32) else ch)"

text \<open>The inner \<open>while True\<close> loop of \<open>__handle_authorization_state_wait_password\<close>,
  which asks for the recovery code.\<close>

fun recovery_code_loop ::
  "nat \<Rightarrow> string list \<Rightarrow> client \<Rightarrow> (error + unit) \<times> string list \<times> client" where
  "recovery_code_loop depth [] c =
     (case subscript (authorization c) ''recovery_email_address_pattern'' of
        Inl e \<Rightarrow> (Inl e, [], c)
      | Inr pattern \<Rightarrow>
          (Inl EOFError, [], emit (Asked ''Enter your recovery code sent to {}: '' [pattern]) c))"
| "recovery_code_loop depth (recovery_code # ins) c =
     (case subscript (authorization c) ''recovery_email_address_pattern'' of
        Inl e \<Rightarrow> (Inl e, recovery_code # ins, c)
      | Inr pattern \<Rightarrow>
          (case invoke depth (checkAuthenticationPasswordRecoveryCode_request (PStr recovery_code))
                  (emit (Asked ''Enter your recovery code sent to {}: '' [pattern]) c) of
             (Inl e, c) \<Rightarrow> (Inl e, ins, c)
           | (Inr res, c) \<Rightarrow>
               if is_error res then
                 (case result_getitem res ''message'' of
                    Inl e \<Rightarrow> (Inl e, ins, c)
                  | Inr message \<Rightarrow>
                      recovery_code_loop depth ins (emit (Printed ''{}'' [message]) c))
               else
                 (case invoke depth (recoverAuthenticationPassword_request (PStr recovery_code)) c of
                    (Inl e, c) \<Rightarrow> (Inl e, ins, c)
                  | (Inr recover_res, c) \<Rightarrow>
                      if is_error recover_res then
                        (case result_getitem recover_res ''message'' of
                           Inl e \<Rightarrow> (Inl e, ins, c)
                         | Inr message \<Rightarrow> (Inl (AuthorizationError message), ins, c))
                      else (Inr (), ins, c))))"

text \<open>
  The \<open>while self.is_running\<close> loop of \<open>__handle_authorization_state_wait_password\<close>.
  The source wraps what \<open>getpass\<close> returns in a tuple of one element, which is the
  value that is compared with the empty string and passed on as the password.
\<close>

fun password_loop ::
  "nat \<Rightarrow> string list \<Rightarrow> client \<Rightarrow> (error + unit) \<times> string list \<times> client" where
  "password_loop depth ins c =
     (if is_running c \<noteq> Some True then (Inr (), ins, c)
      else
        (case subscript (authorization c) ''has_recovery_email_address'' of
           Inl e \<Rightarrow> (Inl e, ins, c)
         | Inr has_recovery \<Rightarrow>
             (let c = emit (Asked ''Enter your 2FA password {}: ''
                              [PStr (if truthy has_recovery then ''(empty to recover)'' else [])]) c
              in
                (case ins of
                   [] \<Rightarrow> (Inl EOFError, [], c)
                 | line # ins \<Rightarrow>
                     (let password = PTuple [PStr line] in
                      if password = PStr [] then
                        (if truthy has_recovery then
                           (let c = emit (Asked
                                      ''Are you sure you want to recover your 2FA password? (y/n): ''
                                      []) c
                            in
                              (case ins of
                                 [] \<Rightarrow> (Inl EOFError, [], c)
                               | y_n # ins \<Rightarrow>
                                   if map ascii_lower y_n \<in> {''y'', ''yes''} then
                                     (case invoke depth
                                             requestAuthenticationPasswordRecovery_request c of
                                        (Inl e, c) \<Rightarrow> (Inl e, ins, c)
                                      | (Inr res, c) \<Rightarrow>
                                          if is_error res then
                                            (case result_getitem res ''message'' of
                                               Inl e \<Rightarrow> (Inl e, ins, c)
                                             | Inr message \<Rightarrow>
                                                 (Inl (AuthorizationError message), ins, c))
                                          else recovery_code_loop depth ins c)
                                   else password_loop depth ins c))
                         else
                           password_loop depth ins
                             (emit (Printed
                                (''You can'' @ [CHR 0x27] @ ''t recover your 2FA password because you don''
                                 @ [CHR 0x27] @ ''t set any recovery email address'') []) c))
                      else
                        (case invoke depth (checkAuthenticationPassword_request password) c of
                           (Inl e, c) \<Rightarrow> (Inl e, ins, c)
                         | (Inr res, c) \<Rightarrow>
                             if is_error res then
                               (case result_getitem res ''message'' of
                                  Inl e \<Rightarrow> (Inl e, ins, c)
                                | Inr message \<Rightarrow>
                                    password_loop depth ins (emit (Printed ''{}'' [message]) c))
                             else (Inr (), ins, c)))))))"

text \<open>\<open>Client.__handle_authorization_state_wait_password\<close>.\<close>

definition handle_authorization_state_wait_password ::
  "nat \<Rightarrow> string list \<Rightarrow> client \<Rightarrow> (error + unit) \<times> string list \<times> client" where
  "handle_authorization_state_wait_password depth ins c =
     (if authorization_state c \<noteq> PStr ''authorizationStateWaitPassword'' then (Inr (), ins, c)
      else
        (case subscript (authorization c) ''password_hint'' of
           Inl e \<Rightarrow> (Inl e, ins, c)
         | Inr password_hint \<Rightarrow>
             password_loop depth ins
               (if truthy password_hint
                then emit (Printed ''Your 2FA password hint is: {}'' [password_hint]) c
                else c)))"

text \<open>
  \<open>Client.__handle_authorization_state\<close>. The steps for the states other than
  \<open>WaitEmailAddress\<close>, \<open>WaitPassword\<close> and \<open>Closed\<close> are recorded by name; their bodies
  are not embedded. The new state is stored before it is logged, and logging it
  raises \<open>AttributeError\<close> when it is not a string.
\<close>

definition handle_authorization_state ::
  "nat \<Rightarrow> dict \<Rightarrow> string list \<Rightarrow> client \<Rightarrow> (error + unit) \<times> string list \<times> client" where
  "handle_authorization_state depth update ins c =
     (case getitem update ''@type'' of
        Inl e \<Rightarrow> (Inl e, ins, c)
      | Inr ty \<Rightarrow>
          if ty \<noteq> PStr ''updateAuthorizationState'' then (Inr (), ins, c)
          else
            (let old_authorization_state = authorization_state c in
             (case getitem update ''authorization_state'' of
                Inl e \<Rightarrow> (Inl e, ins, c)
              | Inr a \<Rightarrow>
                  (case subscript a ''@type'' of
                     Inl e \<Rightarrow> (Inl e, ins, c)
                   | Inr new \<Rightarrow>
                       (let c = c\<lparr>authorization_state := new, authorization := a\<rparr> in
                        (case new of
                           PStr _ \<Rightarrow>
                             if \<not> login c then (Inr (), ins, c)
                             else if new = PStr ''authorizationStateWaitTdlibParameters'' then
                               (Inr (), ins,
                                emit (Called ''set_td_paramaters'') (emit (Called ''_set_options'') c))
                             else if new = PStr ''authorizationStateWaitPhoneNumber'' then
                               (Inr (), ins,
                                emit (Called ''__handle_authorization_state_wait_phone_number'')
                                  (emit (Called ''_print_welcome'') c))
                             else if new = PStr ''authorizationStateWaitEmailAddress'' then
                               handle_authorization_state_wait_email_address depth ins c
                             else if new = PStr ''authorizationStateWaitEmailCode'' then
                               (Inr (), ins,
                                emit (Called ''__handle_authorization_state_wait_email_code'') c)
                             else if new = PStr ''authorizationStateWaitCode'' then
                               (Inr (), ins,
                                emit (Called ''__handle_authorization_state_wait_code'') c)
                             else if new = PStr ''authorizationStateWaitRegistration'' then
                               (Inr (), ins,
                                emit (Called ''__handle_authorization_state_wait_registration'') c)
                             else if old_authorization_state \<noteq> PStr ''authorizationStateWaitPassword''
                                     \<and> new = PStr ''authorizationStateWaitPassword'' then
                               handle_authorization_state_wait_password depth ins c
                             else if new = PStr ''authorizationStateClosed'' \<and> \<not> is_closing c then
                               (Inr (), ins, stop_client c)
                             else (Inr (), ins, c)
                         | _ \<Rightarrow> (Inl AttributeError, ins, c)))))))"

section \<open>Properties\<close>

subsection \<open>The rate-limit policy\<close>

lemma send_and_wait_reply:
  "replies c = payload # rest \<Longrightarrow>
   send_and_wait r c =
     (Inr (set_result r payload),
      c\<lparr>results := AList.delete (result_id r) (AList.update (result_id r) r (results c)),
        replies := rest,
        trace := trace c @ [Sent (result_id r) (request r)]\<rparr>)"
  by (simp add: send_and_wait_def wait_def emit_def)

lemma trace_emit [simp]: "trace (emit e c) = trace c @ [e]"
  by (simp add: emit_def)

lemma trace_send_and_wait:
  "trace (snd (send_and_wait r c)) = trace c @ [Sent (result_id r) (request r)]"
  by (simp add: send_and_wait_def wait_def emit_def split: list.splits)

lemma trace_send_and_wait_eq:
  "send_and_wait r c = (x, c') \<Longrightarrow> trace c' = trace c @ [Sent (result_id r) (request r)]"
  using trace_send_and_wait [of r c] by simp

lemma prefix_send_and_wait:
  "send_and_wait r c = (x, c') \<Longrightarrow> prefix (trace c) (trace c')"
  using trace_send_and_wait [of r c] by simp

lemma prefix_resend: "resend r c = (x, c') \<Longrightarrow> prefix (trace c) (trace c')"
  by (auto simp: resend_def reset_def dest!: prefix_send_and_wait)

lemma prefix_sleep_and_resend:
  "sleep_and_resend n r c = (x, c') \<Longrightarrow> prefix (trace c) (trace c')"
  by (auto simp: sleep_and_resend_def reset_def emit_def prefix_def
      dest!: prefix_send_and_wait split: sum.splits if_splits)

lemma prefix_retry_rate_limited:
  "retry_rate_limited r c = (x, c') \<Longrightarrow> prefix (trace c) (trace c')"
  by (auto simp: retry_rate_limited_def dest!: prefix_sleep_and_resend
      split: sum.splits if_splits)

text \<open>
  C10. For a message that is a string, \<open>get_retry_after_time\<close> returns \<open>n\<close> when the
  message without the prefix \<open>Too Many Requests: retry after\<close> parses as the integer
  \<open>n\<close>, and 0 when it does not parse; so the result is \<open>n\<close> exactly when the remainder
  parses as \<open>n\<close>, or does not parse and \<open>n\<close> is 0. A message without the prefix is
  parsed as it is. The 0 of a message that does not parse is not above the sleep
  threshold that \<open>__init__\<close> sets by default.
\<close>

theorem get_retry_after_time_parse:
  "(py_int (removeprefix retry_after_prefex msg) = Some n \<longrightarrow>
      get_retry_after_time (PStr msg) = n)
   \<and> (py_int (removeprefix retry_after_prefex msg) = None \<longrightarrow>
      get_retry_after_time (PStr msg) = 0
      \<and> get_retry_after_time (PStr msg) \<le> init_sleep_threshold None)
   \<and> (get_retry_after_time (PStr msg) = n \<longleftrightarrow>
        py_int (removeprefix retry_after_prefex msg) = Some n
        \<or> (py_int (removeprefix retry_after_prefex msg) = None \<and> n = 0))
   \<and> (\<not> prefix retry_after_prefex msg \<longrightarrow> removeprefix retry_after_prefex msg = msg)
   \<and> removeprefix retry_after_prefex (retry_after_prefex @ r) = r"
  by (auto simp: init_sleep_threshold_def removeprefix_def split: option.splits)

theorem get_retry_after_time_parse_witness:
  "get_retry_after_time (PStr ''Too Many Requests: retry after 3'') = 3
   \<and> get_retry_after_time (PStr ''Too Many Requests: retry after a while'') = 0
   \<and> get_retry_after_time (PStr ''Too Many Requests: retry after a while'')
        \<le> init_sleep_threshold None
   \<and> get_retry_after_time (PStr ''12'') = 12"
proof -
  have a: "py_int (removeprefix retry_after_prefex ''Too Many Requests: retry after 3'') = Some 3"
    by code_simp
  have b: "py_int (removeprefix retry_after_prefex ''Too Many Requests: retry after a while'')
           = None"
    by code_simp
  have c: "\<not> prefix retry_after_prefex ''12''"
    by code_simp
  have d: "py_int ''12'' = Some 12"
    by code_simp
  from get_retry_after_time_parse [of "''Too Many Requests: retry after 3''" 3] a
  have "get_retry_after_time (PStr ''Too Many Requests: retry after 3'') = 3"
    by blast
  moreover from get_retry_after_time_parse [of "''Too Many Requests: retry after a while''" 0] b
  have "get_retry_after_time (PStr ''Too Many Requests: retry after a while'') = 0
        \<and> get_retry_after_time (PStr ''Too Many Requests: retry after a while'')
            \<le> init_sleep_threshold None"
    by blast
  moreover from get_retry_after_time_parse [of "''12''" 12] c d
  have "get_retry_after_time (PStr ''12'') = 12"
    by metis
  ultimately show ?thesis by blast
qed

text \<open>
  C1. A call through \<open>invoke\<close> is answered by an error of code 429 whose message
  carries the retry-after value \<open>N\<close>, a number of seconds. When \<open>N\<close> is at most the sleep
  threshold, the client sleeps \<open>N\<close> seconds and sends the same request once more, under
  the next correlation key, and the caller gets the answer to the second send, whatever
  it is. When \<open>N\<close> is above the threshold nothing more is sent and the caller gets the
  429 error as it came.
\<close>

theorem invoke_rate_limit:
  assumes "replies c = payload # rest"
    and "map_of payload ''@type'' = Some (PStr ''error'')"
    and "map_of payload ''code'' = Some (PInt 429)"
    and "map_of payload ''message'' = Some message"
    and "get_retry_after_time message = int N"
    and "map_of req ''@type'' = Some ty"
  shows "(int N \<le> sleep_threshold c \<and> rest = payload2 # rest2 \<longrightarrow>
           (\<exists>r c'. invoke (Suc depth) req c = (Inr r, c')
              \<and> request r = req \<and> result_value r = Some payload2
              \<and> trace c' = trace c @
                   [Sent (PInt (int (next_id c))) req,
                    Logged ''Sleeping for {}s (Caused by {})'' [PInt (int N), ty],
                    Slept (int N),
                    Sent (PInt (int (Suc (next_id c)))) req]
              \<and> replies c' = rest2))
       \<and> (\<not> int N \<le> sleep_threshold c \<longrightarrow>
           (\<exists>r c'. invoke (Suc depth) req c = (Inr r, c')
              \<and> request r = req \<and> result_value r = Some payload \<and> is_error r
              \<and> trace c' = trace c @ [Sent (PInt (int (next_id c))) req]
              \<and> replies c' = rest))"
  using assms
  by (simp add: new_result_def send_and_wait_reply set_result_def result_getitem_def
      getitem_def reset_def emit_def retry_rate_limited_def sleep_and_resend_def)

theorem invoke_rate_limit_witness:
  "(\<exists>r c'. invoke (Suc 0) [(''@type'', PStr ''sendMessage''), (''chat_id'', PInt 42)]
             (init_client True (Some 3)
                [[(''@type'', PStr ''error''), (''code'', PInt 429),
                  (''message'', PStr ''Too Many Requests: retry after 3'')],
                 [(''@type'', PStr ''message''), (''id'', PInt 7)]]) = (Inr r, c')
      \<and> result_value r = Some [(''@type'', PStr ''message''), (''id'', PInt 7)]
      \<and> trace c' =
           [Sent (PInt 0) [(''@type'', PStr ''sendMessage''), (''chat_id'', PInt 42)],
            Logged ''Sleeping for {}s (Caused by {})'' [PInt 3, PStr ''sendMessage''],
            Slept 3,
            Sent (PInt 1) [(''@type'', PStr ''sendMessage''), (''chat_id'', PInt 42)]])
   \<and> (\<exists>r c'. invoke (Suc 0) [(''@type'', PStr ''sendMessage''), (''chat_id'', PInt 42)]
             (init_client True (Some 2)
                [[(''@type'', PStr ''error''), (''code'', PInt 429),
                  (''message'', PStr ''Too Many Requests: retry after 3'')],
                 [(''@type'', PStr ''message''), (''id'', PInt 7)]]) = (Inr r, c')
      \<and> result_value r = Some [(''@type'', PStr ''error''), (''code'', PInt 429),
                  (''message'', PStr ''Too Many Requests: retry after 3'')]
      \<and> trace c' =
           [Sent (PInt 0) [(''@type'', PStr ''sendMessage''), (''chat_id'', PInt 42)]])"
proof -
  let ?req = "[(''@type'', PStr ''sendMessage''), (''chat_id'', PInt 42)]"
  let ?err = "[(''@type'', PStr ''error''), (''code'', PInt 429),
               (''message'', PStr ''Too Many Requests: retry after 3'')]"
  let ?ok = "[(''@type'', PStr ''message''), (''id'', PInt 7)]"
  have n: "get_retry_after_time (PStr ''Too Many Requests: retry after 3'') = int 3"
    by code_simp
  have r3: "replies (init_client True (Some 3) [?err, ?ok]) = ?err # [?ok]"
    and r2: "replies (init_client True (Some 2) [?err, ?ok]) = ?err # [?ok]"
    by (simp_all add: init_client_def)
  have t: "map_of ?err ''@type'' = Some (PStr ''error'')"
    and k: "map_of ?err ''code'' = Some (PInt 429)"
    and m: "map_of ?err ''message'' = Some (PStr ''Too Many Requests: retry after 3'')"
    and q: "map_of ?req ''@type'' = Some (PStr ''sendMessage'')"
    by simp_all
  from invoke_rate_limit [OF r3 t k m n q, of ?ok "[]" 0]
  have "\<exists>r c'. invoke (Suc 0) ?req (init_client True (Some 3) [?err, ?ok]) = (Inr r, c')
      \<and> result_value r = Some ?ok
      \<and> trace c' =
           [Sent (PInt 0) ?req,
            Logged ''Sleeping for {}s (Caused by {})'' [PInt 3, PStr ''sendMessage''],
            Slept 3, Sent (PInt 1) ?req]"
    by (auto simp: init_client_def init_sleep_threshold_def simp del: invoke.simps)
  moreover from invoke_rate_limit [OF r2 t k m n q, of ?ok "[]" 0]
  have "\<exists>r c'. invoke (Suc 0) ?req (init_client True (Some 2) [?err, ?ok]) = (Inr r, c')
      \<and> result_value r = Some ?err
      \<and> trace c' = [Sent (PInt 0) ?req]"
    by (auto simp: init_client_def init_sleep_threshold_def simp del: invoke.simps)
  ultimately show ?thesis by blast
qed

subsection \<open>The stale-chat policy\<close>

lemma prefix_invoke: "invoke depth req c = (x, c') \<Longrightarrow> prefix (trace c) (trace c')"
proof (induction depth arbitrary: req c x c')
  case 0
  then show ?case by simp
next
  case (Suc depth)
  have a: "\<And>u v w. prefix u v \<Longrightarrow> prefix v w \<Longrightarrow> prefix u (w::event list)"
    by (rule prefix_order.trans)
  have b: "\<And>u v e. prefix u v \<Longrightarrow> prefix u (v @ [e::event])"
    by (rule prefix_prefix)
  from Suc.prems show ?case
    apply (simp only: invoke.simps new_result_def split: prod.splits sum.splits if_splits bool.splits)
                apply (auto dest!: prefix_send_and_wait prefix_retry_rate_limited prefix_resend Suc.IH
        intro: a b)
    done
qed

lemma invoke_sends_first:
  assumes "invoke depth req c = (Inr r, c')"
  shows "prefix (trace c @ [Sent (PInt (int (next_id c))) req]) (trace c')"
proof (cases depth)
  case 0
  with assms show ?thesis by simp
next
  case (Suc d)
  have a: "\<And>u v w. prefix u v \<Longrightarrow> prefix v w \<Longrightarrow> prefix u (w::event list)"
    by (rule prefix_order.trans)
  have b: "\<And>u v e. prefix u v \<Longrightarrow> prefix u (v @ [e::event])"
    by (rule prefix_prefix)
  from assms [unfolded Suc] show ?thesis
    apply (simp only: invoke.simps new_result_def split: prod.splits sum.splits if_splits bool.splits)
                apply (auto dest!: trace_send_and_wait_eq prefix_retry_rate_limited prefix_resend
        prefix_invoke intro: a b)
    done
qed

text \<open>
  The chat lookup is a call through \<open>invoke\<close>, with the same policy: when the service
  answers it with \<open>Chat not found\<close> as well, it starts a lookup of its own, and so on.
  Here the service gives this answer every time, and the call at depth 3 ends in
  \<open>RecursionError\<close> after the original request and two lookups were sent.
\<close>

lemma invoke_lookup_recursion:
  "fst (invoke (Suc (Suc (Suc 0)))
        [(''@type'', PStr ''sendMessage''), (''chat_id'', PInt 42)]
        (init_client False None
           (replicate 4 [(''@type'', PStr ''error''), (''code'', PInt 400),
                         (''message'', PStr ''Chat not found'')]))) = Inl RecursionError
   \<and> trace (snd (invoke (Suc (Suc (Suc 0)))
        [(''@type'', PStr ''sendMessage''), (''chat_id'', PInt 42)]
        (init_client False None
           (replicate 4 [(''@type'', PStr ''error''), (''code'', PInt 400),
                         (''message'', PStr ''Chat not found'')])))) =
     [Sent (PInt 0) [(''@type'', PStr ''sendMessage''), (''chat_id'', PInt 42)],
      Sent (PInt 1) [(''@type'', PStr ''getChat''), (''chat_id'', PInt 42)],
      Sent (PInt 2) [(''@type'', PStr ''getChat''), (''chat_id'', PInt 42)]]"
  by (simp add: init_client_def new_result_def send_and_wait_reply set_result_def
      getChat_request_def result_getitem_def getitem_def is_chat_not_found_def has_key_def
      numeral_eq_Suc)

lemma send_and_wait_no_reply:
  "replies c = [] \<Longrightarrow> fst (send_and_wait r c) = Inl Blocked"
  by (simp add: send_and_wait_def wait_def emit_def)

text \<open>
  C2, at the inputs where the lookup fails as the call did. The message database is
  disabled, the request carries a \<open>chat_id\<close>, and the service answers every call,
  the chat lookup included, with the error 400 \<open>Chat not found\<close>. Then \<open>invoke\<close> does
  not return the original error, at any depth of calls and for any number of answers:
  each lookup starts a lookup of its own, until the depth of calls is used up
  (\<open>RecursionError\<close>) or the service stops answering. The \<open>else\<close> branch that logs
  \<open>Couldn't load chat\<close> and returns the original error is not reached.
\<close>

theorem invoke_chat_lookup_never_returns:
  assumes "\<forall>p \<in> set (replies c).
      map_of p ''@type'' = Some (PStr ''error'') \<and> map_of p ''code'' = Some (PInt 400)
      \<and> map_of p ''message'' = Some (PStr ''Chat not found'')"
    and "\<not> use_message_database c"
    and "has_key ''chat_id'' req"
  shows "fst (invoke depth req c) = Inl RecursionError \<or> fst (invoke depth req c) = Inl Blocked"
  using assms
proof (induction depth arbitrary: req c)
  case 0
  then show ?case by simp
next
  case (Suc depth)
  obtain r0 c0 where new: "new_result req c = (r0, c0)"
    by fastforce
  then have r0: "request r0 = req"
    and c0: "replies c0 = replies c" "use_message_database c0 = use_message_database c"
    by (auto simp: new_result_def)
  show ?case
  proof (cases "replies c")
    case Nil
    with c0 have "fst (send_and_wait r0 c0) = Inl Blocked"
      by (simp add: send_and_wait_no_reply)
    then show ?thesis
      by (auto simp: new split: prod.splits sum.splits)
  next
    case (Cons p rest)
    with Suc.prems(1) have p: "map_of p ''@type'' = Some (PStr ''error'')"
      "map_of p ''code'' = Some (PInt 400)"
      "map_of p ''message'' = Some (PStr ''Chat not found'')"
      and rest: "\<forall>p \<in> set rest.
        map_of p ''@type'' = Some (PStr ''error'') \<and> map_of p ''code'' = Some (PInt 400)
        \<and> map_of p ''message'' = Some (PStr ''Chat not found'')"
      by simp_all
    obtain c1 where first: "send_and_wait r0 c0 = (Inr (set_result r0 p), c1)"
      and c1: "replies c1 = rest" "use_message_database c1 = use_message_database c"
      using Cons c0 by (simp add: send_and_wait_reply)
    from Suc.prems(3) obtain chat_id where chat: "map_of req ''chat_id'' = Some chat_id"
      by (auto simp: has_key_def)
    have orig: "is_error (set_result r0 p)" "request (set_result r0 p) = req"
      "result_getitem (set_result r0 p) ''code'' = Inr (PInt 400)"
      "is_chat_not_found (set_result r0 p) (PInt 400) c1 = Inr True"
      "getitem (request (set_result r0 p)) ''chat_id'' = Inr chat_id"
      using p chat Suc.prems(2,3) c1 r0
      by (simp_all add: set_result_def result_getitem_def getitem_def is_chat_not_found_def)
    have "has_key ''chat_id'' (getChat_request chat_id)"
      by (simp add: getChat_request_def has_key_def)
    with rest c1 Suc.prems(2)
    have "fst (invoke depth (getChat_request chat_id) c1) = Inl RecursionError
        \<or> fst (invoke depth (getChat_request chat_id) c1) = Inl Blocked"
      by (intro Suc.IH) simp_all
    then obtain e c2 where lookup: "invoke depth (getChat_request chat_id) c1 = (Inl e, c2)"
      and e: "e = RecursionError \<or> e = Blocked"
      by (cases "invoke depth (getChat_request chat_id) c1") auto
    have "getitem req ''chat_id'' = Inr chat_id"
      by (simp add: getitem_def chat)
    then have "invoke (Suc depth) req c = (Inl e, c2)"
      by (simp add: new first orig lookup)
    with e show ?thesis
      by auto
  qed
qed

text \<open>Four such answers and a depth of three calls: the depth is used up first.\<close>

theorem invoke_chat_lookup_never_returns_witness:
  "fst (invoke (Suc (Suc (Suc 0)))
        [(''@type'', PStr ''sendMessage''), (''chat_id'', PInt 42)]
        (init_client False None
           (replicate 4 [(''@type'', PStr ''error''), (''code'', PInt 400),
                         (''message'', PStr ''Chat not found'')]))) = Inl RecursionError"
proof -
  let ?nf = "[(''@type'', PStr ''error''), (''code'', PInt 400),
              (''message'', PStr ''Chat not found'')]"
  let ?req = "[(''@type'', PStr ''sendMessage''), (''chat_id'', PInt 42)]"
  let ?c = "init_client False None (replicate 4 ?nf)"
  have 1: "\<forall>p \<in> set (replies ?c).
      map_of p ''@type'' = Some (PStr ''error'') \<and> map_of p ''code'' = Some (PInt 400)
      \<and> map_of p ''message'' = Some (PStr ''Chat not found'')"
    and 2: "\<not> use_message_database ?c"
    and 3: "has_key ''chat_id'' ?req"
    by (simp_all add: init_client_def has_key_def)
  have "fst (invoke (Suc (Suc (Suc 0))) ?req ?c) \<noteq> Inl Blocked"
    by (simp add: init_client_def new_result_def send_and_wait_reply set_result_def
        getChat_request_def result_getitem_def getitem_def is_chat_not_found_def has_key_def
        numeral_eq_Suc)
  with invoke_chat_lookup_never_returns [OF 1 2 3, of "Suc (Suc (Suc 0))"]
  show ?thesis
    by blast
qed

text \<open>
  The policy when the lookups return. The message database is disabled, the call is
  answered by the error 400 \<open>Chat not found\<close>, and the request carries a \<open>chat_id\<close>.
  Then the next thing the client sends is a lookup of that chat (\<open>getChat\<close>). When the
  lookup returns an error, the log line is the only thing that follows, and the caller
  gets the result of the original call. When the lookup returns a success, a lookup of
  the message (\<open>getMessage\<close>) follows if the request's \<open>reply_to_message_id\<close>, or
  without that key its \<open>message_id\<close>, is greater than 0; then the original request is
  sent once more, and the caller gets the answer to that send. Here \<open>r1\<close> and \<open>c1\<close> are
  the result and the client after the first answer.
\<close>

lemma invoke_chat_lookup_returns:
  assumes reply: "replies c = payload # rest"
    and ty: "map_of payload ''@type'' = Some (PStr ''error'')"
    and code: "map_of payload ''code'' = Some (PInt 400)"
    and msg: "map_of payload ''message'' = Some (PStr ''Chat not found'')"
    and db: "\<not> use_message_database c"
    and chat: "map_of req ''chat_id'' = Some chat_id"
    and new: "new_result req c = (r0, c0)"
    and first: "send_and_wait r0 c0 = (Inr r1, c1)"
    and lookup: "invoke depth (getChat_request chat_id) c1 = (Inr load_chat, c2)"
  shows "request r1 = req \<and> result_value r1 = Some payload \<and> is_error r1
    \<and> (\<exists>t. trace c2 = trace c @ Sent (PInt (int (next_id c))) req
              # Sent (PInt (int (Suc (next_id c)))) (getChat_request chat_id) # t)
    \<and> (is_error load_chat \<longrightarrow>
         invoke (Suc depth) req c =
           (Inr r1, emit (Logged (''Couldn'' @ [CHR 0x27] @ ''t load chat {}'') [chat_id]) c2))
    \<and> (\<not> is_error load_chat \<and> greater_zero (request_message_id req) = Inr False
         \<and> replies c2 = payload2 # rest2 \<longrightarrow>
         (\<exists>r c'. invoke (Suc depth) req c = (Inr r, c')
            \<and> request r = req \<and> result_value r = Some payload2
            \<and> trace c' = trace c2 @ [Sent (PInt (int (next_id c2))) req]
            \<and> replies c' = rest2))
    \<and> (\<not> is_error load_chat \<and> greater_zero (request_message_id req) = Inr True
         \<and> invoke depth (getMessage_request chat_id (request_message_id req)) c2
             = (Inr load_message, c3)
         \<and> replies c3 = payload2 # rest2 \<longrightarrow>
         (\<exists>t. trace c3 = trace c2 @ Sent (PInt (int (next_id c2)))
                   (getMessage_request chat_id (request_message_id req)) # t)
         \<and> (\<exists>r c'. invoke (Suc depth) req c = (Inr r, c')
            \<and> request r = req \<and> result_value r = Some payload2
            \<and> trace c' = trace c3 @ [Sent (PInt (int (next_id c3))) req]
            \<and> replies c' = rest2))"
proof -
  from new have r0: "request r0 = req" "result_id r0 = PInt (int (next_id c))"
    and c0: "replies c0 = replies c" "trace c0 = trace c" "next_id c0 = Suc (next_id c)"
      "use_message_database c0 = use_message_database c"
    by (auto simp: new_result_def)
  from first reply c0 have r1: "r1 = set_result r0 payload"
    and c1: "trace c1 = trace c @ [Sent (PInt (int (next_id c))) req]"
      "next_id c1 = Suc (next_id c)" "use_message_database c1 = use_message_database c"
    by (auto simp: send_and_wait_reply r0)
  have orig: "request r1 = req" "result_value r1 = Some payload" "is_error r1"
    by (simp_all add: r1 set_result_def r0 ty)
  have cond: "result_getitem r1 ''code'' = Inr (PInt 400)"
    "is_chat_not_found r1 (PInt 400) c1 = Inr True"
    using code msg chat db
    by (simp_all add: result_getitem_def getitem_def is_chat_not_found_def has_key_def orig c1)
  have cond': "getitem (request r1) ''chat_id'' = Inr chat_id"
    by (simp only: orig) (simp add: getitem_def chat)
  have unfold: "invoke (Suc depth) req c =
      (if is_error load_chat then
         (Inr r1, emit (Logged (''Couldn'' @ [CHR 0x27] @ ''t load chat {}'') [chat_id]) c2)
       else
         (case greater_zero (request_message_id (request r1)) of
            Inl e \<Rightarrow> (Inl e, c2)
          | Inr False \<Rightarrow> resend r1 c2
          | Inr True \<Rightarrow>
              (case invoke depth (getMessage_request chat_id (request_message_id (request r1))) c2 of
                 (Inl e, c) \<Rightarrow> (Inl e, c)
               | (Inr _, c) \<Rightarrow> resend r1 c)))"
    by (simp add: new first orig(2,3) cond cond' lookup)
  have resend: "\<And>c3. replies c3 = payload2 # rest2 \<Longrightarrow>
      \<exists>r c'. resend r1 c3 = (Inr r, c') \<and> request r = req \<and> result_value r = Some payload2
        \<and> trace c' = trace c3 @ [Sent (PInt (int (next_id c3))) req] \<and> replies c' = rest2"
    by (simp add: resend_def reset_def send_and_wait_reply set_result_def orig)
  from invoke_sends_first [OF lookup] c1
  have sent: "\<exists>t. trace c2 = trace c @ Sent (PInt (int (next_id c))) req
              # Sent (PInt (int (Suc (next_id c)))) (getChat_request chat_id) # t"
    by (auto simp: prefix_def)
  have msg_sent: "invoke depth (getMessage_request chat_id (request_message_id req)) c2
             = (Inr load_message, c3) \<Longrightarrow>
      \<exists>t. trace c3 = trace c2 @ Sent (PInt (int (next_id c2)))
                   (getMessage_request chat_id (request_message_id req)) # t"
    by (drule invoke_sends_first) (auto simp: prefix_def)
  have fail: "is_error load_chat \<longrightarrow>
         invoke (Suc depth) req c =
           (Inr r1, emit (Logged (''Couldn'' @ [CHR 0x27] @ ''t load chat {}'') [chat_id]) c2)"
    by (simp add: unfold del: invoke.simps)
  have plain: "\<not> is_error load_chat \<and> greater_zero (request_message_id req) = Inr False
         \<and> replies c2 = payload2 # rest2 \<longrightarrow>
         (\<exists>r c'. invoke (Suc depth) req c = (Inr r, c')
            \<and> request r = req \<and> result_value r = Some payload2
            \<and> trace c' = trace c2 @ [Sent (PInt (int (next_id c2))) req]
            \<and> replies c' = rest2)"
    using resend [of c2] by (simp add: unfold orig del: invoke.simps)
  have with_message: "\<not> is_error load_chat \<and> greater_zero (request_message_id req) = Inr True
         \<and> invoke depth (getMessage_request chat_id (request_message_id req)) c2
             = (Inr load_message, c3)
         \<and> replies c3 = payload2 # rest2 \<longrightarrow>
         (\<exists>t. trace c3 = trace c2 @ Sent (PInt (int (next_id c2)))
                   (getMessage_request chat_id (request_message_id req)) # t)
         \<and> (\<exists>r c'. invoke (Suc depth) req c = (Inr r, c')
            \<and> request r = req \<and> result_value r = Some payload2
            \<and> trace c' = trace c3 @ [Sent (PInt (int (next_id c3))) req]
            \<and> replies c' = rest2)"
    using resend [of c3] msg_sent by (simp add: unfold orig del: invoke.simps)
  from orig sent fail plain with_message show ?thesis
    by (intro conjI)
qed


text \<open>The policy on a request with a message id: once with both lookups answered, once
  with a chat lookup that fails.\<close>

lemma invoke_chat_lookup_returns_example:
  "(\<exists>r c'. invoke (Suc (Suc 0))
        [(''@type'', PStr ''editMessageText''), (''chat_id'', PInt 42), (''message_id'', PInt 5)]
        (init_client False None
           [[(''@type'', PStr ''error''), (''code'', PInt 400),
             (''message'', PStr ''Chat not found'')],
            [(''@type'', PStr ''chat''), (''id'', PInt 42)],
            [(''@type'', PStr ''message''), (''id'', PInt 5)],
            [(''@type'', PStr ''ok'')]]) = (Inr r, c')
      \<and> result_value r = Some [(''@type'', PStr ''ok'')]
      \<and> trace c' =
          [Sent (PInt 0) [(''@type'', PStr ''editMessageText''), (''chat_id'', PInt 42),
                          (''message_id'', PInt 5)],
           Sent (PInt 1) [(''@type'', PStr ''getChat''), (''chat_id'', PInt 42)],
           Sent (PInt 2) [(''@type'', PStr ''getMessage''), (''chat_id'', PInt 42),
                          (''message_id'', PInt 5)],
           Sent (PInt 3) [(''@type'', PStr ''editMessageText''), (''chat_id'', PInt 42),
                          (''message_id'', PInt 5)]])
   \<and> (\<exists>r c'. invoke (Suc (Suc 0))
        [(''@type'', PStr ''editMessageText''), (''chat_id'', PInt 42), (''message_id'', PInt 5)]
        (init_client False None
           [[(''@type'', PStr ''error''), (''code'', PInt 400),
             (''message'', PStr ''Chat not found'')],
            [(''@type'', PStr ''error''), (''code'', PInt 500),
             (''message'', PStr ''Internal error'')]]) = (Inr r, c')
      \<and> result_value r = Some [(''@type'', PStr ''error''), (''code'', PInt 400),
             (''message'', PStr ''Chat not found'')]
      \<and> is_error r)"
proof -
  let ?req = "[(''@type'', PStr ''editMessageText''), (''chat_id'', PInt 42),
               (''message_id'', PInt 5)]"
  let ?nf = "[(''@type'', PStr ''error''), (''code'', PInt 400),
              (''message'', PStr ''Chat not found'')]"
  let ?chat = "[(''@type'', PStr ''chat''), (''id'', PInt 42)]"
  let ?msg = "[(''@type'', PStr ''message''), (''id'', PInt 5)]"
  let ?ok = "[(''@type'', PStr ''ok'')]"
  let ?bad = "[(''@type'', PStr ''error''), (''code'', PInt 500),
               (''message'', PStr ''Internal error'')]"
  let ?c = "init_client False None [?nf, ?chat, ?msg, ?ok]"
  let ?d = "init_client False None [?nf, ?bad]"
  have ty: "map_of ?nf ''@type'' = Some (PStr ''error'')"
    and code: "map_of ?nf ''code'' = Some (PInt 400)"
    and msg: "map_of ?nf ''message'' = Some (PStr ''Chat not found'')"
    and chat: "map_of ?req ''chat_id'' = Some (PInt 42)"
    and gz: "greater_zero (request_message_id ?req) = Inr True"
    and mid: "request_message_id ?req = PInt 5"
    by (simp_all add: request_message_id_def)
  have "\<exists>r c'. invoke (Suc (Suc 0)) ?req ?c = (Inr r, c') \<and> result_value r = Some ?ok
      \<and> trace c' = [Sent (PInt 0) ?req, Sent (PInt 1) (getChat_request (PInt 42)),
                     Sent (PInt 2) (getMessage_request (PInt 42) (PInt 5)), Sent (PInt 3) ?req]"
  proof -
    have reply: "replies ?c = ?nf # [?chat, ?msg, ?ok]"
      and db: "\<not> use_message_database ?c"
      by (simp_all add: init_client_def)
    obtain r0 c0 where new: "new_result ?req ?c = (r0, c0)"
      by fastforce
    then have c0: "c0 = ?c\<lparr>next_id := Suc 0\<rparr>"
      and r0: "r0 = \<lparr>result_id = PInt 0, request = ?req, is_error = False, result_value = None\<rparr>"
      by (auto simp: new_result_def init_client_def)
    obtain r1 c1 where first: "send_and_wait r0 c0 = (Inr r1, c1)"
      and c1: "c1 = c0\<lparr>results := [], replies := [?chat, ?msg, ?ok],
                        trace := [Sent (PInt 0) ?req]\<rparr>"
      by (simp add: c0 r0 init_client_def send_and_wait_reply)
    obtain lc c2 where lookup: "invoke (Suc 0) (getChat_request (PInt 42)) c1 = (Inr lc, c2)"
      and lc: "\<not> is_error lc"
      and c2: "c2 = c1\<lparr>next_id := Suc (Suc 0), replies := [?msg, ?ok],
                        trace := [Sent (PInt 0) ?req, Sent (PInt 1) (getChat_request (PInt 42))]\<rparr>"
      by (simp add: c1 c0 init_client_def new_result_def send_and_wait_reply set_result_def
          getChat_request_def)
    obtain lm c3 where message: "invoke (Suc 0) (getMessage_request (PInt 42) (PInt 5)) c2
          = (Inr lm, c3)"
      and c3: "c3 = c2\<lparr>next_id := Suc (Suc (Suc 0)), replies := [?ok],
                        trace := [Sent (PInt 0) ?req, Sent (PInt 1) (getChat_request (PInt 42)),
                                  Sent (PInt 2) (getMessage_request (PInt 42) (PInt 5))]\<rparr>"
      by (simp add: c2 c1 c0 init_client_def new_result_def send_and_wait_reply set_result_def
          getMessage_request_def)
    have rest: "replies c3 = ?ok # []" and tr: "next_id c3 = 3"
      by (simp_all add: c3)
    from invoke_chat_lookup_returns [OF reply ty code msg db chat new first lookup,
        of ?ok "[]" lm c3] lc gz message rest mid
    show ?thesis
      by (auto simp: c3 getChat_request_def getMessage_request_def simp del: invoke.simps)
  qed
  moreover
  have "\<exists>r c'. invoke (Suc (Suc 0)) ?req ?d = (Inr r, c') \<and> result_value r = Some ?nf
      \<and> is_error r"
  proof -
    have reply: "replies ?d = ?nf # [?bad]"
      and db: "\<not> use_message_database ?d"
      by (simp_all add: init_client_def)
    obtain r0 c0 where new: "new_result ?req ?d = (r0, c0)"
      by fastforce
    then have c0: "c0 = ?d\<lparr>next_id := Suc 0\<rparr>"
      and r0: "r0 = \<lparr>result_id = PInt 0, request = ?req, is_error = False, result_value = None\<rparr>"
      by (auto simp: new_result_def init_client_def)
    obtain r1 c1 where first: "send_and_wait r0 c0 = (Inr r1, c1)"
      and c1: "c1 = c0\<lparr>results := [], replies := [?bad], trace := [Sent (PInt 0) ?req]\<rparr>"
      by (simp add: c0 r0 init_client_def send_and_wait_reply)
    obtain lc c2 where lookup: "invoke (Suc 0) (getChat_request (PInt 42)) c1 = (Inr lc, c2)"
      and lc: "is_error lc"
      by (simp add: c1 c0 init_client_def new_result_def send_and_wait_reply set_result_def
          getChat_request_def result_getitem_def getitem_def is_chat_not_found_def)
    from invoke_chat_lookup_returns [OF reply ty code msg db chat new first lookup] lc
    show ?thesis
      by (auto simp del: invoke.simps)
  qed
  ultimately show ?thesis
    by (simp add: getChat_request_def getMessage_request_def del: invoke.simps)
qed

text \<open>
  A request with \<open>message_id\<close> 5 whose chat lookup fails is followed by no message
  lookup; and a request with \<open>reply_to_message_id\<close> 0 and \<open>message_id\<close> 5, whose chat
  lookup succeeds, is sent again with no message lookup either, because the first key
  decides.
\<close>

lemma invoke_no_message_lookup:
  "trace (snd (invoke (Suc (Suc 0))
        [(''@type'', PStr ''editMessageText''), (''chat_id'', PInt 42), (''message_id'', PInt 5)]
        (init_client False None
           [[(''@type'', PStr ''error''), (''code'', PInt 400),
             (''message'', PStr ''Chat not found'')],
            [(''@type'', PStr ''error''), (''code'', PInt 500),
             (''message'', PStr ''Internal error'')]]))) =
     [Sent (PInt 0) [(''@type'', PStr ''editMessageText''), (''chat_id'', PInt 42),
                     (''message_id'', PInt 5)],
      Sent (PInt 1) [(''@type'', PStr ''getChat''), (''chat_id'', PInt 42)],
      Logged (''Couldn'' @ [CHR 0x27] @ ''t load chat {}'') [PInt 42]]
   \<and> trace (snd (invoke (Suc (Suc 0))
        [(''@type'', PStr ''sendMessage''), (''chat_id'', PInt 42),
         (''reply_to_message_id'', PInt 0), (''message_id'', PInt 5)]
        (init_client False None
           [[(''@type'', PStr ''error''), (''code'', PInt 400),
             (''message'', PStr ''Chat not found'')],
            [(''@type'', PStr ''chat''), (''id'', PInt 42)],
            [(''@type'', PStr ''ok'')]]))) =
     [Sent (PInt 0) [(''@type'', PStr ''sendMessage''), (''chat_id'', PInt 42),
                     (''reply_to_message_id'', PInt 0), (''message_id'', PInt 5)],
      Sent (PInt 1) [(''@type'', PStr ''getChat''), (''chat_id'', PInt 42)],
      Sent (PInt 2) [(''@type'', PStr ''sendMessage''), (''chat_id'', PInt 42),
                     (''reply_to_message_id'', PInt 0), (''message_id'', PInt 5)]]"
  by (simp add: init_client_def new_result_def send_and_wait_reply set_result_def
      getChat_request_def result_getitem_def getitem_def is_chat_not_found_def has_key_def
      request_message_id_def resend_def reset_def)

subsection \<open>The authorization state machine\<close>

text \<open>
  C3, as amended. The update brings the state \<open>WaitPassword\<close>. When the state before was
  \<open>WaitPassword\<close> already, the transition is a no-op: the new state and its payload are
  stored, and the wait-password step is not run, so nothing is asked and no call is made.
  When the state before was another one and login is in progress, the step is run. When
  login is not in progress no step is run.
\<close>

theorem wait_password_guard:
  assumes "map_of update ''@type'' = Some (PStr ''updateAuthorizationState'')"
    and "map_of update ''authorization_state'' = Some (PDict a)"
    and "map_of a ''@type'' = Some (PStr ''authorizationStateWaitPassword'')"
  shows "(authorization_state c = PStr ''authorizationStateWaitPassword'' \<longrightarrow>
           handle_authorization_state depth update ins c =
             (Inr (), ins,
              c\<lparr>authorization_state := PStr ''authorizationStateWaitPassword'',
                authorization := PDict a\<rparr>))
       \<and> (authorization_state c \<noteq> PStr ''authorizationStateWaitPassword'' \<and> login c \<longrightarrow>
           handle_authorization_state depth update ins c =
             handle_authorization_state_wait_password depth ins
               (c\<lparr>authorization_state := PStr ''authorizationStateWaitPassword'',
                  authorization := PDict a\<rparr>))
       \<and> (\<not> login c \<longrightarrow>
           handle_authorization_state depth update ins c =
             (Inr (), ins,
              c\<lparr>authorization_state := PStr ''authorizationStateWaitPassword'',
                authorization := PDict a\<rparr>))"
  using assms by (simp add: handle_authorization_state_def getitem_def Let_def)

text \<open>An update to \<open>WaitPassword\<close> in the state \<open>WaitPassword\<close>, with a line ready to be
  read and the service ready to answer: the line is not read and nothing is sent.\<close>

theorem wait_password_guard_witness:
  "handle_authorization_state (Suc 0)
     [(''@type'', PStr ''updateAuthorizationState''),
      (''authorization_state'',
       PDict [(''@type'', PStr ''authorizationStateWaitPassword''),
              (''password_hint'', PStr ''pet''), (''has_recovery_email_address'', PBool False)])]
     [''secret'']
     ((init_client True None [[(''@type'', PStr ''ok'')]])
        \<lparr>is_running := Some True,
          authorization_state := PStr ''authorizationStateWaitPassword'', login := True\<rparr>)
   = (Inr (), [''secret''],
      (init_client True None [[(''@type'', PStr ''ok'')]])
        \<lparr>is_running := Some True,
          authorization_state := PStr ''authorizationStateWaitPassword'',
          authorization :=
            PDict [(''@type'', PStr ''authorizationStateWaitPassword''),
                   (''password_hint'', PStr ''pet''),
                   (''has_recovery_email_address'', PBool False)],
          login := True\<rparr>)"
proof -
  let ?a = "[(''@type'', PStr ''authorizationStateWaitPassword''),
             (''password_hint'', PStr ''pet''), (''has_recovery_email_address'', PBool False)]"
  let ?u = "[(''@type'', PStr ''updateAuthorizationState''), (''authorization_state'', PDict ?a)]"
  let ?c = "(init_client True None [[(''@type'', PStr ''ok'')]])
        \<lparr>is_running := Some True,
          authorization_state := PStr ''authorizationStateWaitPassword'', login := True\<rparr>"
  have 1: "map_of ?u ''@type'' = Some (PStr ''updateAuthorizationState'')"
    and 2: "map_of ?u ''authorization_state'' = Some (PDict ?a)"
    and 3: "map_of ?a ''@type'' = Some (PStr ''authorizationStateWaitPassword'')"
    and 4: "authorization_state ?c = PStr ''authorizationStateWaitPassword''"
    by simp_all
  from wait_password_guard [OF 1 2 3, of ?c "Suc 0" "[''secret'']"] 4
  have "handle_authorization_state (Suc 0) ?u [''secret''] ?c =
      (Inr (), [''secret''],
       ?c\<lparr>authorization_state := PStr ''authorizationStateWaitPassword'',
           authorization := PDict ?a\<rparr>)"
    by blast
  then show ?thesis
    by (simp add: init_client_def)
qed

text \<open>
  C3 as stated does not hold: an update to \<open>WaitPassword\<close> that arrives in the state
  \<open>WaitCode\<close>, a state other than \<open>WaitPassword\<close>, runs the step. The hint is printed,
  the password is asked for and the password check is sent.
\<close>

theorem wait_password_guard_counterexample:
  "handle_authorization_state (Suc 0)
     [(''@type'', PStr ''updateAuthorizationState''),
      (''authorization_state'',
       PDict [(''@type'', PStr ''authorizationStateWaitPassword''),
              (''password_hint'', PStr ''pet''), (''has_recovery_email_address'', PBool False)])]
     [''secret'']
     ((init_client True None [[(''@type'', PStr ''ok'')]])
        \<lparr>is_running := Some True,
          authorization_state := PStr ''authorizationStateWaitCode'', login := True\<rparr>)
   = (Inr (), [],
      (init_client True None [[(''@type'', PStr ''ok'')]])
        \<lparr>is_running := Some True,
          authorization_state := PStr ''authorizationStateWaitPassword'',
          authorization :=
            PDict [(''@type'', PStr ''authorizationStateWaitPassword''),
                   (''password_hint'', PStr ''pet''),
                   (''has_recovery_email_address'', PBool False)],
          login := True,
          next_id := Suc 0,
          replies := [],
          trace :=
            [Printed ''Your 2FA password hint is: {}'' [PStr ''pet''],
             Asked ''Enter your 2FA password {}: '' [PStr []],
             Sent (PInt 0) [(''@type'', PStr ''checkAuthenticationPassword''),
                            (''password'', PTuple [PStr ''secret''])]]\<rparr>)"
  by (simp add: handle_authorization_state_def handle_authorization_state_wait_password_def
      getitem_def init_client_def new_result_def send_and_wait_reply set_result_def
      checkAuthenticationPassword_request_def emit_def Let_def)

text \<open>
  C4 at a concrete input. Login is in progress and the update brings the state
  \<open>WaitEmailAddress\<close>: the state is stored, the step returns at once, no email address is
  asked for and nothing is sent. The loop that asks and submits runs only when the step
  is entered in another state, here \<open>WaitPhoneNumber\<close>.
\<close>

theorem wait_email_address_returns:
  "handle_authorization_state (Suc 0)
     [(''@type'', PStr ''updateAuthorizationState''),
      (''authorization_state'',
       PDict [(''@type'', PStr ''authorizationStateWaitEmailAddress'')])]
     [''me@example.org'']
     ((init_client True None [[(''@type'', PStr ''ok'')]])
        \<lparr>is_running := Some True,
          authorization_state := PStr ''authorizationStateWaitPhoneNumber'', login := True\<rparr>)
   = (Inr (), [''me@example.org''],
      (init_client True None [[(''@type'', PStr ''ok'')]])
        \<lparr>is_running := Some True,
          authorization_state := PStr ''authorizationStateWaitEmailAddress'',
          authorization := PDict [(''@type'', PStr ''authorizationStateWaitEmailAddress'')],
          login := True\<rparr>)
   \<and> fst (handle_authorization_state_wait_email_address (Suc 0) [''me@example.org'']
       ((init_client True None [[(''@type'', PStr ''ok'')]])
        \<lparr>is_running := Some True,
          authorization_state := PStr ''authorizationStateWaitPhoneNumber'', login := True\<rparr>))
     = Inr ()
   \<and> trace (snd (snd (handle_authorization_state_wait_email_address (Suc 0) [''me@example.org'']
       ((init_client True None [[(''@type'', PStr ''ok'')]])
        \<lparr>is_running := Some True,
          authorization_state := PStr ''authorizationStateWaitPhoneNumber'', login := True\<rparr>))))
     = [Asked ''Enter your email address: '' [],
        Sent (PInt 0) [(''@type'', PStr ''setAuthenticationEmailAddress''),
                       (''email_address'', PStr ''me@example.org'')]]"
  by (simp add: handle_authorization_state_def handle_authorization_state_wait_email_address_def
      getitem_def init_client_def new_result_def send_and_wait_reply set_result_def
      setAuthenticationEmailAddress_request_def emit_def Let_def)

subsection \<open>The handler registry\<close>

lemma sorted_sort_handlers: "sorted (map sort_position (sort_handlers hs))"
  by (simp add: sort_handlers_def)

lemma filter_sort_handlers:
  "filter (\<lambda>h. sort_position h = k) (sort_handlers hs) = filter (\<lambda>h. sort_position h = k) hs"
  by (simp add: sort_handlers_def sort_key_stable)

lemma sort_position_None: "sort_position h = (True, None) \<longleftrightarrow> position h = None"
  by (auto simp: sort_position_def)

lemma filter_None_sort_handlers:
  "filter (\<lambda>h. position h = None) (sort_handlers hs) = filter (\<lambda>h. position h = None) hs"
  using filter_sort_handlers [of "(True, None)" hs] by (simp add: sort_position_None)

lemma sort_position_le: "sort_position x \<le> sort_position y \<Longrightarrow> position_le x y"
  by (auto simp: sort_position_def position_le_def split: option.splits)

lemma sorted_position_le:
  assumes "sorted (map sort_position hs)"
  shows "sorted_wrt position_le hs"
proof -
  from assms have "sorted_wrt (\<lambda>x y. sort_position x \<le> sort_position y) hs"
    by (simp add: sorted_map)
  then show ?thesis
    by (rule sorted_wrt_mono_rel [rotated]) (simp add: sort_position_le)
qed


lemma filter_None_list_insert:
  "position h \<noteq> None \<Longrightarrow>
   filter (\<lambda>h. position h = None) (list_insert i h hs) = filter (\<lambda>h. position h = None) hs"
proof -
  assume h: "position h \<noteq> None"
  have "filter (\<lambda>h. position h = None) (take n hs @ [h] @ drop n hs)
        = filter (\<lambda>h. position h = None) hs" for n
  proof -
    have "filter (\<lambda>h. position h = None) hs
        = filter (\<lambda>h. position h = None) (take n hs)
          @ filter (\<lambda>h. position h = None) (drop n hs)"
      by (metis append_take_drop_id filter_append)
    with h show ?thesis by simp
  qed
  then show ?thesis
    by (simp add: list_insert_def Let_def)
qed

lemma set_update_cases:
  "(t, hs) \<in> set (AList.update k v al) \<Longrightarrow> (t, hs) = (k, v) \<or> (t, hs) \<in> set al"
  by (induction al) (auto split: if_splits)

lemma add_handler_invariant:
  assumes inv: "\<forall>(t, hs) \<in> set (handlers c).
      sorted (map sort_position hs) \<and> subseq (filter (\<lambda>h. position h = None) hs) regs"
  shows "\<forall>(t, hs) \<in> set (handlers (add_handler u f flt p c)).
      sorted (map sort_position hs)
      \<and> subseq (filter (\<lambda>h. position h = None) hs)
          (regs @ [\<lparr>func = f, update_type = u, filter' = flt, position = p\<rparr>])"
proof (clarify)
  fix t hs
  let ?h = "\<lparr>func = f, update_type = u, filter' = flt, position = p\<rparr>"
  let ?old = "case map_of (handlers c) u of None \<Rightarrow> [] | Some hs \<Rightarrow> hs"
  let ?new = "case p of Some i \<Rightarrow> list_insert i ?h ?old | None \<Rightarrow> ?old @ [?h]"
  assume "(t, hs) \<in> set (handlers (add_handler u f flt p c))"
  then consider "(t, hs) \<in> set (handlers c)" | "hs = sort_handlers ?new"
    by (auto simp: add_handler_def Let_def dest!: set_update_cases)
  then show "sorted (map sort_position hs)
      \<and> subseq (filter (\<lambda>h. position h = None) hs) (regs @ [?h])"
  proof cases
    case 1
    with inv show ?thesis
      by (auto intro: subseq_rev_drop_many)
  next
    case 2
    have old: "subseq (filter (\<lambda>h. position h = None) ?old) regs"
    proof (cases "map_of (handlers c) u")
      case None
      then show ?thesis by simp
    next
      case (Some old)
      then have "(u, old) \<in> set (handlers c)"
        by (rule map_of_SomeD)
      with inv Some show ?thesis by auto
    qed
    have "subseq (filter (\<lambda>h. position h = None) ?new) (regs @ [?h])"
    proof (cases p)
      case None
      with old show ?thesis by (simp add: subseq_append)
    next
      case (Some i)
      then have "filter (\<lambda>h. position h = None) ?new = filter (\<lambda>h. position h = None) ?old"
        by (simp add: filter_None_list_insert)
      with old show ?thesis
        by (simp add: subseq_rev_drop_many)
    qed
    with 2 show ?thesis
      by (simp add: sorted_sort_handlers filter_None_sort_handlers)
  qed
qed

lemma remove_first_subseq: "remove_first f hs = Some ys \<Longrightarrow> subseq ys hs"
  by (induction hs arbitrary: ys) (auto split: if_splits)

lemma remove_from_cases:
  "remove_from f al = Some al' \<Longrightarrow> (t, hs) \<in> set al' \<Longrightarrow>
   (t, hs) \<in> set al
   \<or> (\<exists>old ys. (t, old) \<in> set al \<and> remove_first f old = Some ys \<and> hs = sort_handlers ys)"
proof (induction al arbitrary: al')
  case Nil
  then show ?case by simp
next
  case (Cons a al)
  obtain u us where a: "a = (u, us)" by (cases a)
  show ?case
  proof (cases "remove_first f us")
    case None
    with Cons.prems a obtain r where r: "remove_from f al = Some r" and al': "al' = a # r"
      by auto
    from Cons.prems(2) al' consider "(t, hs) = a" | "(t, hs) \<in> set r"
      by auto
    then show ?thesis
    proof cases
      case 1
      then show ?thesis by simp
    next
      case 2
      from Cons.IH [OF r 2] show ?thesis by auto
    qed
  next
    case (Some ys)
    with Cons.prems a have "al' = (u, sort_handlers ys) # al"
      by simp
    with Cons.prems(2) Some a show ?thesis by auto
  qed
qed

lemma remove_handler_invariant:
  assumes inv: "\<forall>(t, hs) \<in> set (handlers c).
      sorted (map sort_position hs) \<and> subseq (filter (\<lambda>h. position h = None) hs) regs"
  shows "\<forall>(t, hs) \<in> set (handlers (snd (remove_handler f c))).
      sorted (map sort_position hs) \<and> subseq (filter (\<lambda>h. position h = None) hs) regs"
proof (cases "remove_from f (handlers c)")
  case None
  with inv show ?thesis by (simp add: remove_handler_def)
next
  case (Some al')
  show ?thesis
  proof (clarify)
    fix t hs
    assume "(t, hs) \<in> set (handlers (snd (remove_handler f c)))"
    with Some have "(t, hs) \<in> set al'"
      by (simp add: remove_handler_def)
    from remove_from_cases [OF Some this]
    show "sorted (map sort_position hs) \<and> subseq (filter (\<lambda>h. position h = None) hs) regs"
    proof
      assume "(t, hs) \<in> set (handlers c)"
      with inv show ?thesis by auto
    next
      assume "\<exists>old ys. (t, old) \<in> set (handlers c) \<and> remove_first f old = Some ys
          \<and> hs = sort_handlers ys"
      then obtain old ys where old: "(t, old) \<in> set (handlers c)"
        and ys: "remove_first f old = Some ys" and hs: "hs = sort_handlers ys"
        by blast
      from ys have "subseq (filter (\<lambda>h. position h = None) ys)
          (filter (\<lambda>h. position h = None) old)"
        by (simp add: remove_first_subseq)
      moreover from inv old have "subseq (filter (\<lambda>h. position h = None) old) regs"
        by auto
      ultimately have "subseq (filter (\<lambda>h. position h = None) ys) regs"
        by (rule subseq_order.trans)
      with hs show ?thesis
        by (simp add: sorted_sort_handlers filter_None_sort_handlers)
    qed
  qed
qed

lemma registry_calls_invariant:
  assumes "\<forall>(t, hs) \<in> set (handlers c).
      sorted (map sort_position hs) \<and> subseq (filter (\<lambda>h. position h = None) hs) regs"
  shows "\<forall>(t, hs) \<in> set (handlers (registry_calls calls c)).
      sorted (map sort_position hs)
      \<and> subseq (filter (\<lambda>h. position h = None) hs) (regs @ registered calls)"
  using assms
proof (induction calls arbitrary: c regs)
  case Nil
  then show ?case by (simp add: registry_calls_def)
next
  case (Cons call calls)
  show ?case
  proof (cases call)
    case (AddHandler u f flt p)
    from add_handler_invariant [OF Cons.prems, of u f flt p]
    have "\<forall>(t, hs) \<in> set (handlers (registry_calls calls (add_handler u f flt p c))).
      sorted (map sort_position hs)
      \<and> subseq (filter (\<lambda>h. position h = None) hs)
          ((regs @ [\<lparr>func = f, update_type = u, filter' = flt, position = p\<rparr>])
            @ registered calls)"
      by (rule Cons.IH)
    with AddHandler show ?thesis
      by (simp add: registry_calls_def)
  next
    case (RemoveHandler f)
    from remove_handler_invariant [OF Cons.prems, of f]
    have "\<forall>(t, hs) \<in> set (handlers (registry_calls calls (snd (remove_handler f c)))).
      sorted (map sort_position hs)
      \<and> subseq (filter (\<lambda>h. position h = None) hs) (regs @ registered calls)"
      by (rule Cons.IH)
    with RemoveHandler show ?thesis
      by (simp add: registry_calls_def)
  qed
qed


text \<open>
  C5, as amended. After every sequence of \<open>add_handler\<close> and \<open>remove_handler\<close> calls on
  a new client, every handler list of the registry is in the order of the explicit
  positions, ascending, with the handlers without position after all the others; and
  the handlers without position stand in the order in which they were registered. Four
  handlers registered with the positions 2, 0, none, 1 end up in the order 0, 1, 2, none.
  Nothing is said about the order of two handlers with the same explicit position.
\<close>

theorem registry_order:
  "(\<forall>t hs. (t, hs) \<in> set (handlers (registry_calls calls (init_client db thr svc))) \<longrightarrow>
      sorted_wrt position_le hs
      \<and> subseq (filter (\<lambda>h. position h = None) hs) (registered calls))
   \<and> map_of (handlers (registry_calls
         [AddHandler ''updateNewMessage'' 1 None (Some 2),
          AddHandler ''updateNewMessage'' 2 None (Some 0),
          AddHandler ''updateNewMessage'' 3 None None,
          AddHandler ''updateNewMessage'' 4 None (Some 1)]
         (init_client db thr svc))) ''updateNewMessage''
     = Some [\<lparr>func = 2, update_type = ''updateNewMessage'', filter' = None, position = Some 0\<rparr>,
             \<lparr>func = 4, update_type = ''updateNewMessage'', filter' = None, position = Some 1\<rparr>,
             \<lparr>func = 1, update_type = ''updateNewMessage'', filter' = None, position = Some 2\<rparr>,
             \<lparr>func = 3, update_type = ''updateNewMessage'', filter' = None, position = None\<rparr>]"
proof (intro conjI allI impI)
  fix t hs
  assume mem: "(t, hs) \<in> set (handlers (registry_calls calls (init_client db thr svc)))"
  have "\<forall>(t, hs) \<in> set (handlers (init_client db thr svc)).
      sorted (map sort_position hs) \<and> subseq (filter (\<lambda>h. position h = None) hs) []"
    by (simp add: init_client_def)
  from registry_calls_invariant [OF this, of calls] mem
  have "sorted (map sort_position hs)"
    and "subseq (filter (\<lambda>h. position h = None) hs) (registered calls)"
    by auto
  then show "sorted_wrt position_le hs"
    and "subseq (filter (\<lambda>h. position h = None) hs) (registered calls)"
    by (simp_all add: sorted_position_le)
next
  show "map_of (handlers (registry_calls
         [AddHandler ''updateNewMessage'' 1 None (Some 2),
          AddHandler ''updateNewMessage'' 2 None (Some 0),
          AddHandler ''updateNewMessage'' 3 None None,
          AddHandler ''updateNewMessage'' 4 None (Some 1)]
         (init_client db thr svc))) ''updateNewMessage''
     = Some [\<lparr>func = 2, update_type = ''updateNewMessage'', filter' = None, position = Some 0\<rparr>,
             \<lparr>func = 4, update_type = ''updateNewMessage'', filter' = None, position = Some 1\<rparr>,
             \<lparr>func = 1, update_type = ''updateNewMessage'', filter' = None, position = Some 2\<rparr>,
             \<lparr>func = 3, update_type = ''updateNewMessage'', filter' = None, position = None\<rparr>]"
    by (simp add: registry_calls_def add_handler_def init_client_def list_insert_def
        sort_handlers_def sort_position_def)
qed

text \<open>Three registrations and one removal; the list that is left is in order.\<close>

theorem registry_order_witness:
  "sorted_wrt position_le
     [\<lparr>func = 2, update_type = ''updateNewMessage'', filter' = None, position = Some 0\<rparr>,
      \<lparr>func = 3, update_type = ''updateNewMessage'', filter' = None, position = None\<rparr>]
   \<and> subseq
     [\<lparr>func = 3, update_type = ''updateNewMessage'', filter' = None, position = None\<rparr>]
     (registered
        [AddHandler ''updateNewMessage'' 1 None (Some 2),
         AddHandler ''updateNewMessage'' 2 None (Some 0),
         AddHandler ''updateNewMessage'' 3 None None,
         RemoveHandler 1])"
proof -
  let ?calls = "[AddHandler ''updateNewMessage'' 1 None (Some 2),
         AddHandler ''updateNewMessage'' 2 None (Some 0),
         AddHandler ''updateNewMessage'' 3 None None,
         RemoveHandler 1]"
  let ?hs = "[\<lparr>func = 2, update_type = ''updateNewMessage'', filter' = None, position = Some 0\<rparr>,
      \<lparr>func = 3, update_type = ''updateNewMessage'', filter' = None, position = None\<rparr>]"
  have "(''updateNewMessage'', ?hs)
      \<in> set (handlers (registry_calls ?calls (init_client True None [])))"
    by (simp add: registry_calls_def add_handler_def remove_handler_def init_client_def
        list_insert_def sort_handlers_def sort_position_def)
  with registry_order [of ?calls True None "[]"]
  have "sorted_wrt position_le ?hs
      \<and> subseq (filter (\<lambda>h. position h = None) ?hs) (registered ?calls)"
    by blast
  then show ?thesis
    by simp
qed

text \<open>
  C5 as stated does not hold: of two handlers registered with the same position 0, the
  second is inserted at index 0, before the first, and the stable sort leaves it there.
\<close>

theorem registry_order_counterexample:
  "map_of (handlers (registry_calls
       [AddHandler ''updateNewMessage'' 1 None (Some 0),
        AddHandler ''updateNewMessage'' 2 None (Some 0)]
       (init_client True None []))) ''updateNewMessage''
   = Some [\<lparr>func = 2, update_type = ''updateNewMessage'', filter' = None, position = Some 0\<rparr>,
           \<lparr>func = 1, update_type = ''updateNewMessage'', filter' = None, position = Some 0\<rparr>]"
  by (simp add: registry_calls_def add_handler_def init_client_def list_insert_def
      sort_handlers_def sort_position_def)

subsection \<open>The handler chain\<close>

lemma runs_append [simp]: "runs (xs @ ys) = runs xs @ runs ys"
  by (simp add: runs_def)

lemma runs_Cons [simp]: "runs (e # tr) = (if is_ran e then e # runs tr else runs tr)"
  by (simp add: runs_def)

lemma runs_Nil [simp]: "runs [] = []"
  by (simp add: runs_def)

lemma handlers_emit [simp]: "handlers (emit e c) = handlers c"
  by (simp add: emit_def)












text \<open>
  C7. An \<open>updateNewMessage\<close> whose message is outgoing and carries a \<open>sending_state\<close>
  leaves the client as it is: \<open>_update_worker\<close> returns, no initializer, handler or
  finalizer runs, and nothing is logged.
\<close>

theorem local_echo_skipped:
  assumes "map_of update ''@type'' = Some (PStr ''updateNewMessage'')"
    and "map_of update ''message'' = Some (PDict message)"
    and "map_of message ''is_outgoing'' = Some is_outgoing"
    and "truthy is_outgoing"
    and "has_key ''sending_state'' message"
  shows "update_worker turns cf cp update c = Some c"
proof -
  from assms have "is_local_echo update = Inr True"
    by (simp add: is_local_echo_def getitem_def)
  with assms(1) show ?thesis
    by (simp add: update_worker_def getitem_def has_key_def split: bool.split)
qed

text \<open>The local echo of a message being sent runs no handler; the same update without
  the marker, and not outgoing, runs all three.\<close>

theorem local_echo_skipped_witness:
  "update_worker (Suc (Suc 0)) (\<lambda>f u c. (Returns (), u, c)) (\<lambda>p u c. (Returns True, u, c))
     [(''@type'', PStr ''updateNewMessage''),
      (''message'',
       PDict [(''id'', PInt 9), (''is_outgoing'', PBool True),
              (''sending_state'', PDict [(''@type'', PStr ''messageSendingStatePending'')])])]
     (registry_calls
        [AddHandler ''initializer'' 0 None None,
         AddHandler ''updateNewMessage'' 1 None None,
         AddHandler ''finalizer'' 2 None None]
        ((init_client True None [])\<lparr>is_running := Some True\<rparr>))
   = Some (registry_calls
        [AddHandler ''initializer'' 0 None None,
         AddHandler ''updateNewMessage'' 1 None None,
         AddHandler ''finalizer'' 2 None None]
        ((init_client True None [])\<lparr>is_running := Some True\<rparr>))
   \<and> map_option trace (update_worker (Suc (Suc 0))
     (\<lambda>f u c. (Returns (), u, c)) (\<lambda>p u c. (Returns True, u, c))
     [(''@type'', PStr ''updateNewMessage''),
      (''message'', PDict [(''id'', PInt 9), (''is_outgoing'', PBool False)])]
     (registry_calls
        [AddHandler ''initializer'' 0 None None,
         AddHandler ''updateNewMessage'' 1 None None,
         AddHandler ''finalizer'' 2 None None]
        ((init_client True None [])\<lparr>is_running := Some True\<rparr>)))
   = Some [Ran ''initializer''
        \<lparr>func = 0, update_type = ''initializer'', filter' = None, position = None\<rparr>,
      Ran ''updateNewMessage''
        \<lparr>func = 1, update_type = ''updateNewMessage'', filter' = None, position = None\<rparr>,
      Ran ''finalizer''
        \<lparr>func = 2, update_type = ''finalizer'', filter' = None, position = None\<rparr>]"
proof -
  let ?m = "[(''id'', PInt 9), (''is_outgoing'', PBool True),
             (''sending_state'', PDict [(''@type'', PStr ''messageSendingStatePending'')])]"
  let ?u = "[(''@type'', PStr ''updateNewMessage''), (''message'', PDict ?m)]"
  have 1: "map_of ?u ''@type'' = Some (PStr ''updateNewMessage'')"
    and 2: "map_of ?u ''message'' = Some (PDict ?m)"
    and 3: "map_of ?m ''is_outgoing'' = Some (PBool True)"
    and 4: "truthy (PBool True)"
    and 5: "has_key ''sending_state'' ?m"
    by (simp_all add: has_key_def)
  note local_echo_skipped [OF 1 2 3 4 5]
  moreover have "map_option trace (update_worker (Suc (Suc 0))
     (\<lambda>f u c. (Returns (), u, c)) (\<lambda>p u c. (Returns True, u, c))
     [(''@type'', PStr ''updateNewMessage''),
      (''message'', PDict [(''id'', PInt 9), (''is_outgoing'', PBool False)])]
     (registry_calls
        [AddHandler ''initializer'' 0 None None,
         AddHandler ''updateNewMessage'' 1 None None,
         AddHandler ''finalizer'' 2 None None]
        ((init_client True None [])\<lparr>is_running := Some True\<rparr>)))
   = Some [Ran ''initializer''
        \<lparr>func = 0, update_type = ''initializer'', filter' = None, position = None\<rparr>,
      Ran ''updateNewMessage''
        \<lparr>func = 1, update_type = ''updateNewMessage'', filter' = None, position = None\<rparr>,
      Ran ''finalizer''
        \<lparr>func = 2, update_type = ''finalizer'', filter' = None, position = None\<rparr>]"
    by (simp add: registry_calls_def add_handler_def init_client_def sort_handlers_def
      sort_position_def update_worker_def run_chain_def run_initializers_def run_handlers_def
      run_finalizers_def call_handler_def is_local_echo_def getitem_def has_key_def emit_def)
  ultimately show ?thesis
    by blast
qed

subsection \<open>The decorators and the dispatcher\<close>

text \<open>
  C8 at a concrete input. The decorator \<open>finalizer\<close> whose receiver is a \<open>Filter\<close> gives
  the function a handler of the update type \<open>initializer\<close>; loading the function as a
  plugin object puts it in the list of the initializers and leaves the list of the
  finalizers empty; and on an update whose main-phase handler raises the stop signal,
  the callback runs before the main phase and nothing runs after it. With a receiver
  that is neither a client nor a filter, the handler is of the type \<open>finalizer\<close>.
\<close>

theorem finalizer_on_filter:
  "handler_attr (fst (finalizer (IsFilter 7) None None
       \<lparr>ident = 21, handler_attr = None\<rparr>
       ((init_client True None [])\<lparr>is_running := Some True\<rparr>)))
   = Some \<lparr>func = 21, update_type = ''initializer'', filter' = Some 7, position = None\<rparr>
   \<and> handlers (load_plugin_object
       (fst (finalizer (IsFilter 7) None None
          \<lparr>ident = 21, handler_attr = None\<rparr>
          ((init_client True None [])\<lparr>is_running := Some True\<rparr>)))
       ((init_client True None [])\<lparr>is_running := Some True\<rparr>))
   = [(''initializer'',
       [\<lparr>func = 21, update_type = ''initializer'', filter' = Some 7, position = None\<rparr>]),
      (''finalizer'', [])]
   \<and> handler_attr (fst (finalizer IsOther (Some 7) None
       \<lparr>ident = 21, handler_attr = None\<rparr>
       ((init_client True None [])\<lparr>is_running := Some True\<rparr>)))
   = Some \<lparr>func = 21, update_type = ''finalizer'', filter' = Some 7, position = None\<rparr>
   \<and> map_option trace (update_worker (Suc (Suc 0))
       (\<lambda>f u c. (if f = 22 then RaisesStopHandlers else Returns (), u, c))
       (\<lambda>p u c. (Returns True, u, c))
       [(''@type'', PStr ''updateNewMessage''),
        (''message'', PDict [(''is_outgoing'', PBool False)])]
       (add_handler ''updateNewMessage'' 22 None None
         (load_plugin_object
           (fst (finalizer (IsFilter 7) None None
              \<lparr>ident = 21, handler_attr = None\<rparr>
              ((init_client True None [])\<lparr>is_running := Some True\<rparr>)))
           ((init_client True None [])\<lparr>is_running := Some True\<rparr>))))
   = Some [Ran ''initializer''
        \<lparr>func = 21, update_type = ''initializer'', filter' = Some 7, position = None\<rparr>,
      Ran ''updateNewMessage''
        \<lparr>func = 22, update_type = ''updateNewMessage'', filter' = None, position = None\<rparr>]"
  by (simp add: finalizer_def load_plugin_object_def add_handler_def init_client_def
      sort_handlers_def sort_position_def update_worker_def run_chain_def run_initializers_def
      run_handlers_def run_finalizers_def call_handler_def is_local_echo_def getitem_def
      has_key_def emit_def)

lemma delete_absent: "\<not> has_key k d \<Longrightarrow> AList.delete k d = d"
  by (induction d) (auto simp: has_key_def)

lemma has_key_delete: "k \<noteq> k' \<Longrightarrow> has_key k (AList.delete k' d) = has_key k d"
  by (simp add: has_key_def delete_conv')

text \<open>
  C9. Processing a message without the key \<open>@type\<close> returns without an exception and
  changes nothing but the log: the pending calls are as they were, so none is
  resolved; the one new entry of the trace is the log line, so nothing is submitted to
  the workers and no handler runs; and the receiver loop, when it is running, goes on
  with the next message.
\<close>

theorem process_update_without_type:
  assumes "\<not> has_key ''@type'' update"
  shows "process_update update c =
           (Inr (), emit (Logged ''Unexpected update received: {}''
                            [PDict (AList.delete ''@client_id'' update)]) c)
       \<and> results (snd (process_update update c)) = results c
       \<and> trace (snd (process_update update c)) =
           trace c @ [Logged ''Unexpected update received: {}''
                        [PDict (AList.delete ''@client_id'' update)]]
       \<and> (is_running c = Some True \<longrightarrow>
            receive_loop (Some update # received) c =
              receive_loop received
                (emit (Logged ''Unexpected update received: {}''
                         [PDict (AList.delete ''@client_id'' update)]) c))"
proof -
  have "process_update update c =
      (Inr (), emit (Logged ''Unexpected update received: {}''
                       [PDict (AList.delete ''@client_id'' update)]) c)"
    using assms by (simp add: process_update_def has_key_delete delete_absent)
  then show ?thesis
    by (simp add: emit_def)
qed

text \<open>A message without \<open>@type\<close> whose \<open>@extra\<close> names a pending call: the call stays
  pending.\<close>

theorem process_update_without_type_witness:
  "process_update
     [(''@client_id'', PInt 1), (''@extra'', PDict [(''id'', PInt 0)]), (''ok'', PBool True)]
     ((init_client True None [])
        \<lparr>is_running := Some True,
          results := [(PInt 0, \<lparr>result_id = PInt 0, request = [(''@type'', PStr ''getMe'')],
                                is_error = False, result_value = None\<rparr>)]\<rparr>)
   = (Inr (),
      (init_client True None [])
        \<lparr>is_running := Some True,
          results := [(PInt 0, \<lparr>result_id = PInt 0, request = [(''@type'', PStr ''getMe'')],
                                is_error = False, result_value = None\<rparr>)],
          trace := [Logged ''Unexpected update received: {}''
                      [PDict [(''@extra'', PDict [(''id'', PInt 0)]), (''ok'', PBool True)]]]\<rparr>)"
proof -
  let ?u = "[(''@client_id'', PInt 1), (''@extra'', PDict [(''id'', PInt 0)]),
             (''ok'', PBool True)]"
  have "\<not> has_key ''@type'' ?u"
    by (simp add: has_key_def)
  from process_update_without_type [OF this]
  show ?thesis
    by (simp add: emit_def init_client_def)
qed

end
